theory Spec2Isabelle
  imports Main "HOL-Library.Sublist"
begin

section \<open>Data model\<close>

text \<open>
  The models file (\<^verbatim>\<open>models/janus.models\<close>) is imported by the components but is not
  among the sources, so the enumerations and the two data classes are declared
  here with the members the specification lists. Constructors of different enumerations
  share names, as in the source; they are always written qualified
  (\<^verbatim>\<open>RoomInfoState.error\<close>, \<^verbatim>\<open>PublishState.error\<close>).
\<close>

text \<open>Modelled from the spec: the enumeration \<^verbatim>\<open>RoomInfoState\<close> of the missing models file.\<close>

datatype RoomInfoState =
  uninitialized | initialized | attaching | attached | attach_failed | registered
  | publishing | error

text \<open>Modelled from the spec: the enumeration \<^verbatim>\<open>PublishState\<close> of the missing models file.\<close>

datatype PublishState = idle | publishing | error

text \<open>Modelled from the spec: the enumeration \<^verbatim>\<open>RemoteFeedState\<close> of the missing models file.\<close>

datatype RemoteFeedState = pending | ready | closed

text \<open>
  Modelled from the spec: \<^verbatim>\<open>RoomInfo\<close>. The error code is present only in an error state;
  \<^verbatim>\<open>None\<close> is JavaScript's \<^verbatim>\<open>undefined\<close>.
\<close>

record RoomInfo =
  state :: RoomInfoState
  publishState :: PublishState
  muted :: bool
  errorCode :: "int option"

text \<open>
  Modelled from the spec: \<^verbatim>\<open>RemoteFeed\<close>. The source's fields \<^verbatim>\<open>id\<close> and \<^verbatim>\<open>state\<close> are
  \<open>feed_id\<close> and \<open>feed_state\<close> here (\<open>id\<close> is the identity function of HOL, \<open>state\<close> is
  the field of \<open>RoomInfo\<close>). JavaScript numbers that hold layer indices and track counts
  are integers. \<open>feed_slowLink\<close> is the feed's slow-link signal, \<^verbatim>\<open>slowLink\<close> in the source,
  where its only mention is the detection that is commented out in the video box's
  \<^verbatim>\<open>ngOnChanges\<close>.
\<close>

record RemoteFeed =
  feed_id :: string
  feed_state :: RemoteFeedState
  streamId :: string
  numVideoTracks :: int
  currentSubstream :: int
  requestedSubstream :: int
  feed_slowLink :: bool

type_synonym Publisher = RemoteFeed

type_synonym IceServer = string

datatype RoomId = RoomNumber int | RoomName string

text \<open>
  An uncaught exception is a value: \<open>Threw e s\<close> carries the state reached when the
  exception left the function (effects performed before the throw are kept).
\<close>

datatype js_error = TypeError

datatype 's result = Returned 's | Threw js_error 's

text \<open>JavaScript truthiness of an optional string: \<^verbatim>\<open>undefined\<close> and \<^verbatim>\<open>''\<close> are falsy.\<close>

fun truthy :: "string option \<Rightarrow> bool" where
  "truthy None = False"
| "truthy (Some s) = (s \<noteq> [])"

section \<open>The video room component\<close>

text \<open>
  What the component does to its collaborators: calls on the store and values sent through
  its output emitters \<^verbatim>\<open>janusError\<close>, \<^verbatim>\<open>publishers\<close> and \<^verbatim>\<open>roomInfo\<close>, in the order they
  happen.
\<close>

datatype effect =
  StoreInitialize "IceServer list"
  | StoreReset "IceServer list"
  | StoreSetMute bool
  | StoreAttachVideoRoom "string option"
  | StoreRegister string "string option" RoomId "string option"
  | EmitJanusError int string
  | EmitPublishers "Publisher list"
  | EmitRoomInfo RoomInfo

text \<open>
  The component's inputs and private fields. The private field \<^verbatim>\<open>muted\<close> is \<open>isMuted\<close>
  (its getter's name; \<open>muted\<close> is the field of \<open>RoomInfo\<close>). Four fields hold what the
  runtime keeps for the component: \<open>forwarding\<close>, whether \<^verbatim>\<open>ngOnInit\<close> has subscribed to
  \<^verbatim>\<open>roomInfo$\<close> (that subscription is never ended); \<open>subscribed\<close>, whether the subscription
  to \<^verbatim>\<open>state$\<close> is live (it is piped through \<^verbatim>\<open>takeUntil(destroy$)\<close>); \<open>timers\<close>, the delays
  of the pending \<^verbatim>\<open>setTimeout\<close> callbacks, oldest first (the source has one
  \<^verbatim>\<open>setTimeout\<close> site, so every pending callback is the retry of attach); and \<open>trace\<close>,
  the effects so far.
\<close>

record JanusVideoroomComponent =
  roomId :: RoomId
  wsUrl :: "string option"
  httpUrl :: "string option"
  pin :: "string option"
  userName :: string
  userId :: "string option"
  iceServers :: "IceServer list"
  isMuted :: bool
  janusServerUrl :: "string option"
  forwarding :: bool
  subscribed :: bool
  timers :: "nat list"
  trace :: "effect list"

text \<open>\<^verbatim>\<open>_setMuted\<close>: forwards to the store.\<close>

definition setMuted :: "bool \<Rightarrow> JanusVideoroomComponent \<Rightarrow> JanusVideoroomComponent" where
  "setMuted m c = c\<lparr>trace := trace c @ [StoreSetMute m]\<rparr>"

text \<open>The setter of the input \<^verbatim>\<open>isMuted\<close>.\<close>

definition set_isMuted :: "bool \<Rightarrow> JanusVideoroomComponent \<Rightarrow> JanusVideoroomComponent" where
  "set_isMuted m c = setMuted m (c\<lparr>isMuted := m\<rparr>)"

text \<open>\<^verbatim>\<open>emitRemoteFeeds\<close>: the publishers are the feeds whose state is \<^verbatim>\<open>ready\<close>.\<close>

definition emitRemoteFeeds ::
  "RemoteFeed list \<Rightarrow> JanusVideoroomComponent \<Rightarrow> JanusVideoroomComponent" where
  "emitRemoteFeeds remoteFeeds c =
     (let publishers = filter (\<lambda>feed. feed_state feed = RemoteFeedState.ready) remoteFeeds
      in c\<lparr>trace := trace c @ [EmitPublishers publishers]\<rparr>)"

text \<open>
  The callback given to \<^verbatim>\<open>setTimeout\<close> in the \<^verbatim>\<open>attach_failed\<close> case. It reads
  \<^verbatim>\<open>this.janusServerUrl\<close> when it runs, not when it is scheduled. Nothing in the source
  ever clears a timer, so a pending callback runs whatever has happened since.
\<close>

definition timerFires :: "JanusVideoroomComponent \<Rightarrow> JanusVideoroomComponent" where
  "timerFires c =
     (case timers c of
        [] \<Rightarrow> c
      | d # ds \<Rightarrow> c\<lparr>timers := ds, trace := trace c @ [StoreAttachVideoRoom (janusServerUrl c)]\<rparr>)"

text \<open>The \<^verbatim>\<open>switch (roomInfo.state)\<close> statement of the subscriber in \<^verbatim>\<open>setupJanusRoom\<close>.\<close>

definition stateSwitch ::
  "RoomInfo \<Rightarrow> string option \<Rightarrow> JanusVideoroomComponent \<Rightarrow> JanusVideoroomComponent" where
  "stateSwitch roomInfo pin' c =
     (case state roomInfo of
        RoomInfoState.initialized \<Rightarrow>
          c\<lparr>trace := trace c @ [StoreAttachVideoRoom (janusServerUrl c)]\<rparr>
      | RoomInfoState.attached \<Rightarrow>
          c\<lparr>trace := trace c @ [StoreRegister (userName c) (userId c) (roomId c) pin']\<rparr>
      | RoomInfoState.attach_failed \<Rightarrow>
          (if janusServerUrl c \<noteq> httpUrl c
           then c\<lparr>janusServerUrl := httpUrl c, timers := timers c @ [100]\<rparr>
           else c\<lparr>trace := trace c @
                   [EmitJanusError 9999 ''Unable to connect to media server'']\<rparr>)
      | _ \<Rightarrow> c)"

text \<open>
  The subscriber of \<^verbatim>\<open>state$\<close> in \<^verbatim>\<open>setupJanusRoom\<close>, run on one emitted pair.
  \<open>JanusErrors\<close> is the code-to-message table of the missing models file, taken as a
  parameter: \<open>JanusErrors k = Some m\<close> when the table has an entry for \<open>k\<close> whose message
  is \<open>m\<close>. \<^verbatim>\<open>JanusErrors[roomInfo.errorCode].message\<close> reads a property of \<^verbatim>\<open>undefined\<close>
  when the table has no entry, which throws a TypeError; the statements after it are then
  not run. The feeds arrive as the object's entries in the order of \<^verbatim>\<open>Object.keys\<close>
  (keys are distinct, so mapping the keys to their values gives the second components).
\<close>

definition subscriber ::
  "(int \<rightharpoonup> string) \<Rightarrow> RoomInfo \<times> (string \<times> RemoteFeed) list \<Rightarrow>
     JanusVideoroomComponent \<Rightarrow> JanusVideoroomComponent result" where
  "subscriber JanusErrors emission c =
     (let roomInfo = fst emission;
          remoteFeeds = snd emission;
          pin' = (if truthy (pin c) then pin c else None);
          remoteFeedsArray = map snd remoteFeeds;
          c1 = (if muted roomInfo \<noteq> isMuted c
                   \<and> publishState roomInfo = PublishState.publishing
                then setMuted (isMuted c) c else c)
      in if publishState roomInfo = PublishState.error
         then (case errorCode roomInfo of
                 None \<Rightarrow> Threw TypeError c1
               | Some code \<Rightarrow>
                   (case JanusErrors code of
                      None \<Rightarrow> Threw TypeError c1
                    | Some message \<Rightarrow>
                        Returned (stateSwitch roomInfo pin'
                          (emitRemoteFeeds remoteFeedsArray
                            (c1\<lparr>trace := trace c1 @ [EmitJanusError code message]\<rparr>)))))
         else Returned (stateSwitch roomInfo pin' (emitRemoteFeeds remoteFeedsArray c1)))"

text \<open>
  \<^verbatim>\<open>setupJanusRoom\<close>: initialises the store and subscribes. \<^verbatim>\<open>ngOnInit\<close> chooses the
  server URL, subscribes to \<^verbatim>\<open>roomInfo$\<close> to pass each room information on through the
  output \<^verbatim>\<open>roomInfo\<close> (with no \<^verbatim>\<open>takeUntil\<close>: this subscription outlives the component)
  and, once the devices are granted (outside this model), sets the room up.
  \<open>roomInfoSubscriber\<close> is the function it subscribes.
\<close>

definition roomInfoSubscriber ::
  "RoomInfo \<Rightarrow> JanusVideoroomComponent \<Rightarrow> JanusVideoroomComponent" where
  "roomInfoSubscriber roomInfo c = c\<lparr>trace := trace c @ [EmitRoomInfo roomInfo]\<rparr>"

definition setupJanusRoom :: "JanusVideoroomComponent \<Rightarrow> JanusVideoroomComponent" where
  "setupJanusRoom c = c\<lparr>subscribed := True, trace := trace c @ [StoreInitialize (iceServers c)]\<rparr>"

definition ngOnInit :: "JanusVideoroomComponent \<Rightarrow> JanusVideoroomComponent" where
  "ngOnInit c =
     setupJanusRoom
       (c\<lparr>janusServerUrl := (if truthy (wsUrl c) then wsUrl c else httpUrl c),
          forwarding := True\<rparr>)"

text \<open>
  \<^verbatim>\<open>ngOnDestroy\<close>: \<^verbatim>\<open>destroy$\<close> fires and completes, which ends the subscription piped
  through \<^verbatim>\<open>takeUntil(destroy$)\<close>. It does nothing else: the subscription to
  \<^verbatim>\<open>roomInfo$\<close> and a pending timer are left as they are.
\<close>

definition ngOnDestroy :: "JanusVideoroomComponent \<Rightarrow> JanusVideoroomComponent" where
  "ngOnDestroy c = c\<lparr>subscribed := False\<rparr>"

definition resetKeys :: "string list" where
  "resetKeys = [''roomId'', ''wsUrl'', ''httpUrl'', ''iceServers'', ''pin'', ''role'',
                ''userName'', ''userId'', ''component'']"

text \<open>
  The loop of \<^verbatim>\<open>ngOnChanges\<close> over the reset keys; \<open>changes k = Some b\<close> when \<open>k\<close> is in
  the changes object with \<^verbatim>\<open>firstChange\<close> equal to \<open>b\<close>. The first key that changed
  after its first binding resets the store and leaves the loop.
\<close>

fun resetLoop ::
  "string list \<Rightarrow> (string \<rightharpoonup> bool) \<Rightarrow> JanusVideoroomComponent \<Rightarrow> JanusVideoroomComponent" where
  "resetLoop [] changes c = c"
| "resetLoop (key # keys) changes c =
     (case changes key of
        Some firstChange \<Rightarrow>
          (if \<not> firstChange
           then c\<lparr>janusServerUrl := (if truthy (wsUrl c) then wsUrl c else httpUrl c),
                  trace := trace c @ [StoreReset (iceServers c)]\<rparr>
           else resetLoop keys changes c)
      | None \<Rightarrow> resetLoop keys changes c)"

definition ngOnChanges ::
  "(string \<rightharpoonup> bool) \<Rightarrow> JanusVideoroomComponent \<Rightarrow> JanusVideoroomComponent" where
  "ngOnChanges changes c = resetLoop resetKeys changes c"

text \<open>
  What can happen to a component: \<^verbatim>\<open>state$\<close> emits a pair (delivered to the subscriber
  only while the subscription is live), \<^verbatim>\<open>roomInfo$\<close> emits a room information (passed on
  once \<^verbatim>\<open>ngOnInit\<close> has subscribed), the oldest pending timer runs, an input changes, the
  component is destroyed. A run follows a list of events up to the first uncaught
  exception.
\<close>

datatype event =
  StateEmission "RoomInfo \<times> (string \<times> RemoteFeed) list"
  | RoomInfoEmission RoomInfo
  | TimerFires
  | Changes "(string \<times> bool) list"
  | Destroy

fun step ::
  "(int \<rightharpoonup> string) \<Rightarrow> event \<Rightarrow> JanusVideoroomComponent \<Rightarrow> JanusVideoroomComponent result" where
  "step JanusErrors (StateEmission emission) c =
     (if subscribed c then subscriber JanusErrors emission c else Returned c)"
| "step JanusErrors (RoomInfoEmission roomInfo) c =
     Returned (if forwarding c then roomInfoSubscriber roomInfo c else c)"
| "step JanusErrors TimerFires c = Returned (timerFires c)"
| "step JanusErrors (Changes changes) c = Returned (ngOnChanges (map_of changes) c)"
| "step JanusErrors Destroy c = Returned (ngOnDestroy c)"

fun run ::
  "(int \<rightharpoonup> string) \<Rightarrow> event list \<Rightarrow> JanusVideoroomComponent \<Rightarrow>
     JanusVideoroomComponent result" where
  "run JanusErrors [] c = Returned c"
| "run JanusErrors (ev # evs) c =
     (case step JanusErrors ev c of
        Returned c' \<Rightarrow> run JanusErrors evs c'
      | Threw e c' \<Rightarrow> Threw e c')"

text \<open>Observations on a trace, used to state the properties.\<close>

fun isAttach :: "effect \<Rightarrow> bool" where
  "isAttach (StoreAttachVideoRoom url) = True"
| "isAttach other = False"

fun isRegister :: "effect \<Rightarrow> bool" where
  "isRegister (StoreRegister name uid room p) = True"
| "isRegister other = False"

fun isJanusError :: "effect \<Rightarrow> bool" where
  "isJanusError (EmitJanusError code message) = True"
| "isJanusError other = False"

fun isSetMute :: "effect \<Rightarrow> bool" where
  "isSetMute (StoreSetMute m) = True"
| "isSetMute other = False"

fun isPublishers :: "effect \<Rightarrow> bool" where
  "isPublishers (EmitPublishers ps) = True"
| "isPublishers other = False"

text \<open>
  The URL just tried: the argument of the last call of \<^verbatim>\<open>attachVideoRoom\<close> in a trace,
  \<open>None\<close> when there has been no call.
\<close>

definition urlJustTried :: "effect list \<Rightarrow> string option option" where
  "urlJustTried tr =
     (case rev (filter isAttach tr) of
        StoreAttachVideoRoom url # earlier \<Rightarrow> Some url
      | _ \<Rightarrow> None)"

text \<open>The state a result carries, and whether the function returned.\<close>

fun final :: "'s result \<Rightarrow> 's" where
  "final (Returned s) = s"
| "final (Threw e s) = s"

fun returned :: "'s result \<Rightarrow> bool" where
  "returned (Returned s) = True"
| "returned (Threw e s) = False"

text \<open>
  Three notions used to state the properties of the subscriber. \<open>lookupFails\<close> says that
  the subscriber has to read the message of an error code and the table has no entry for
  it (or there is no code). \<open>fatalErrorEvents\<close> is the error event the room information
  calls for: the code with the table's message, when the publish state is an error.
  \<open>beforeSwitch\<close> is the component after the statements that precede the \<^verbatim>\<open>switch\<close>, when
  none of them throws. Lemmas \<open>subscriber_returns\<close> and \<open>subscriber_throws\<close> below relate
  them to \<open>subscriber\<close>.
\<close>

definition lookupFails :: "(int \<rightharpoonup> string) \<Rightarrow> RoomInfo \<Rightarrow> bool" where
  "lookupFails JanusErrors roomInfo =
     (publishState roomInfo = PublishState.error \<and>
      (case errorCode roomInfo of None \<Rightarrow> True | Some code \<Rightarrow> JanusErrors code = None))"

definition fatalErrorEvents :: "(int \<rightharpoonup> string) \<Rightarrow> RoomInfo \<Rightarrow> effect list" where
  "fatalErrorEvents JanusErrors roomInfo =
     (if publishState roomInfo = PublishState.error
      then (case errorCode roomInfo of
              None \<Rightarrow> []
            | Some code \<Rightarrow>
                (case JanusErrors code of
                   None \<Rightarrow> []
                 | Some message \<Rightarrow> [EmitJanusError code message]))
      else [])"

definition muteCommands :: "RoomInfo \<Rightarrow> JanusVideoroomComponent \<Rightarrow> effect list" where
  "muteCommands roomInfo c =
     (if muted roomInfo \<noteq> isMuted c \<and> publishState roomInfo = PublishState.publishing
      then [StoreSetMute (isMuted c)] else [])"

definition readyFeeds :: "(string \<times> RemoteFeed) list \<Rightarrow> RemoteFeed list" where
  "readyFeeds remoteFeeds =
     filter (\<lambda>feed. feed_state feed = RemoteFeedState.ready) (map snd remoteFeeds)"

definition beforeSwitch ::
  "(int \<rightharpoonup> string) \<Rightarrow> RoomInfo \<times> (string \<times> RemoteFeed) list \<Rightarrow>
     JanusVideoroomComponent \<Rightarrow> JanusVideoroomComponent" where
  "beforeSwitch JanusErrors emission c =
     c\<lparr>trace := trace c @ muteCommands (fst emission) c
          @ fatalErrorEvents JanusErrors (fst emission)
          @ [EmitPublishers (readyFeeds (snd emission))]\<rparr>"

text \<open>
  A component as the class declares it, with the defaults of its field initialisers, for
  a room and the two server URLs; and the component of the example in the class's
  documentation, given an http URL as well and initialised.
\<close>

definition newComponent ::
  "RoomId \<Rightarrow> string option \<Rightarrow> string option \<Rightarrow> JanusVideoroomComponent" where
  "newComponent room ws http =
     \<lparr>roomId = room, wsUrl = ws, httpUrl = http, pin = None, userName = ''janus user'',
      userId = None, iceServers = [''stun:stun2.l.google.com:19302''], isMuted = False,
      janusServerUrl = None, forwarding = False, subscribed = False, timers = [],
      trace = []\<rparr>"

definition exampleComponent :: JanusVideoroomComponent where
  "exampleComponent =
     ngOnInit (newComponent (RoomNumber 1234) (Some ''wss://janus.conf.meetecho.com/ws'')
       (Some ''https://janus.conf.meetecho.com/janus''))"

text \<open>The same component when only the websocket URL is given.\<close>

definition wsOnlyComponent :: JanusVideoroomComponent where
  "wsOnlyComponent =
     ngOnInit (newComponent (RoomNumber 1234) (Some ''wss://janus.conf.meetecho.com/ws'') None)"

text \<open>Room information in a given state, with nothing published and not muted.\<close>

definition roomIn :: "RoomInfoState \<Rightarrow> RoomInfo" where
  "roomIn s = \<lparr>state = s, publishState = PublishState.idle, muted = False, errorCode = None\<rparr>"

text \<open>Room information after a rejection with the given error code.\<close>

definition roomFailed :: "int \<Rightarrow> RoomInfo" where
  "roomFailed code =
     \<lparr>state = RoomInfoState.error, publishState = PublishState.error, muted = False,
      errorCode = Some code\<rparr>"

section \<open>The video box component and its quality monitor\<close>

text \<open>
  Modelled from the spec: the class \<^verbatim>\<open>VideoQualityHelper\<close> (file
  \<^verbatim>\<open>video-quality-helper\<close>), which the video box imports and which is not among the
  sources. The specification describes it as a scorer with a counter of
  consecutive healthy evaluation ticks at the current layer and an independent error
  counter. A healthy ping returns a candidate layer that is one above the current layer
  once a configurable number \<open>needed\<close> of consecutive healthy pings at that layer have
  accumulated, and never reaches the cap \<open>maxStreams\<close> (layers are \<open>0 .. maxStreams - 1\<close>);
  a stream error breaks the run of healthy pings; closing a layer out ends its scoring.
\<close>

record VideoQualityHelper =
  maxStreams :: int
  needed :: nat
  layer :: int
  healthy :: nat
  errors :: nat

text \<open>Modelled from the spec: the constructor of the missing \<^verbatim>\<open>VideoQualityHelper\<close>.\<close>

definition new_VideoQualityHelper :: "nat \<Rightarrow> int \<Rightarrow> VideoQualityHelper" where
  "new_VideoQualityHelper n cap =
     \<lparr>maxStreams = cap, needed = n, layer = 0, healthy = 0, errors = 0\<rparr>"

text \<open>Modelled from the spec: \<^verbatim>\<open>ping\<close> of the missing \<^verbatim>\<open>VideoQualityHelper\<close>.\<close>

definition ping :: "int \<Rightarrow> VideoQualityHelper \<Rightarrow> int \<times> VideoQualityHelper" where
  "ping substream h =
     (let n = (if layer h = substream then healthy h + 1 else 1);
          h' = h\<lparr>layer := substream, healthy := n\<rparr>
      in (if needed h \<le> n \<and> substream + 1 < maxStreams h then substream + 1 else substream,
          h'))"

text \<open>Modelled from the spec: \<^verbatim>\<open>streamError\<close> of the missing \<^verbatim>\<open>VideoQualityHelper\<close>.\<close>

definition streamError :: "int \<Rightarrow> VideoQualityHelper \<Rightarrow> VideoQualityHelper" where
  "streamError substream h = h\<lparr>layer := substream, healthy := 0, errors := errors h + 1\<rparr>"

text \<open>Modelled from the spec: \<^verbatim>\<open>streamEnd\<close> of the missing \<^verbatim>\<open>VideoQualityHelper\<close>.\<close>

definition streamEnd :: "int \<Rightarrow> VideoQualityHelper \<Rightarrow> VideoQualityHelper" where
  "streamEnd substream h = (if layer h = substream then h\<lparr>healthy := 0\<rparr> else h)"

text \<open>What the video box does that others can see: a console line and a switch request.\<close>

datatype box_effect =
  ConsoleLog string int string
  | EmitRequestSubstream RemoteFeed int

text \<open>
  The fields of the video box that the monitor reads and writes; \<open>emitted\<close> is the list
  of its effects so far.
\<close>

record VideoBoxComponent =
  remoteFeed :: "RemoteFeed option"
  videoId :: string
  videoQualityHelper :: VideoQualityHelper
  emitted :: "box_effect list"

text \<open>
  The constructor builds the helper with the argument \<^verbatim>\<open>3\<close>, the cap on layers. The
  number of healthy pings an upgrade needs is a setting of the missing helper, so it is a
  parameter here.
\<close>

definition new_VideoBoxComponent :: "nat \<Rightarrow> VideoBoxComponent" where
  "new_VideoBoxComponent n =
     \<lparr>remoteFeed = None, videoId = [], videoQualityHelper = new_VideoQualityHelper n 3,
      emitted = []\<rparr>"

text \<open>
  \<^verbatim>\<open>switchSubstream\<close>: requests the substream unless it is the one last requested.
  Reading \<^verbatim>\<open>this.remoteFeed.requestedSubstream\<close> without a feed throws.
\<close>

definition switchSubstream :: "int \<Rightarrow> VideoBoxComponent \<Rightarrow> VideoBoxComponent result" where
  "switchSubstream substreamId b =
     (case remoteFeed b of
        None \<Rightarrow> Threw TypeError b
      | Some feed \<Rightarrow>
          (if requestedSubstream feed \<noteq> substreamId
           then Returned (b\<lparr>emitted := emitted b @
                   [ConsoleLog ''switching substream'' substreamId (videoId b),
                    EmitRequestSubstream feed substreamId]\<rparr>)
           else Returned b))"

text \<open>\<^verbatim>\<open>monitorVideoQuality\<close>: one evaluation of the feed's health.\<close>

definition monitorVideoQuality :: "bool \<Rightarrow> VideoBoxComponent \<Rightarrow> VideoBoxComponent result" where
  "monitorVideoQuality slowLink b =
     (case remoteFeed b of
        None \<Rightarrow> Returned b
      | Some feed \<Rightarrow>
          (let current = currentSubstream feed
           in if numVideoTracks feed = 0 \<or> slowLink
              then (let b1 = b\<lparr>videoQualityHelper :=
                                  streamError current (videoQualityHelper b)\<rparr>
                    in if current > 0 then switchSubstream (current - 1) b1 else Returned b1)
              else (let r = ping current (videoQualityHelper b);
                        newSubstream = fst r;
                        b1 = b\<lparr>videoQualityHelper := snd r\<rparr>
                    in if newSubstream > current
                       then switchSubstream newSubstream
                              (b1\<lparr>videoQualityHelper :=
                                    streamEnd current (videoQualityHelper b1)\<rparr>)
                       else Returned b1)))"

text \<open>
  One evaluation tick on a feed: the input \<^verbatim>\<open>remoteFeed\<close> holds the feed and the monitor
  runs (\<^verbatim>\<open>ngOnChanges\<close> and the interval both call it with \<^verbatim>\<open>slowLink\<close> false; the
  parameter is kept, as in \<^verbatim>\<open>monitorVideoQuality\<close>). \<open>evaluations\<close> runs a list of ticks,
  up to the first uncaught exception.
\<close>

definition evaluate ::
  "bool \<times> RemoteFeed \<Rightarrow> VideoBoxComponent \<Rightarrow> VideoBoxComponent result" where
  "evaluate tick b = monitorVideoQuality (fst tick) (b\<lparr>remoteFeed := Some (snd tick)\<rparr>)"

fun evaluations ::
  "(bool \<times> RemoteFeed) list \<Rightarrow> VideoBoxComponent \<Rightarrow> VideoBoxComponent result" where
  "evaluations [] b = Returned b"
| "evaluations (tick # ticks) b =
     (case evaluate tick b of
        Returned b' \<Rightarrow> evaluations ticks b'
      | Threw e b' \<Rightarrow> Threw e b')"

text \<open>
  The two quality-evaluation ticks of the source. \<open>remoteFeedChanged\<close> is \<^verbatim>\<open>ngOnChanges\<close>
  of the video box when the input \<^verbatim>\<open>remoteFeed\<close> has changed to the given feed: its
  \<^verbatim>\<open>slowLink\<close> is the constant false (the detection that would set it from the feed's
  signal is commented out: \<^verbatim>\<open>Taking this out of this release\<close>). \<open>intervalTick\<close> is the
  function subscribed to the one-second interval.
\<close>

definition remoteFeedChanged ::
  "RemoteFeed \<Rightarrow> VideoBoxComponent \<Rightarrow> VideoBoxComponent result" where
  "remoteFeedChanged feed b =
     (let slowLink = False in monitorVideoQuality slowLink (b\<lparr>remoteFeed := Some feed\<rparr>))"

definition intervalTick :: "VideoBoxComponent \<Rightarrow> VideoBoxComponent result" where
  "intervalTick b = monitorVideoQuality False b"

text \<open>A tick is healthy when the feed has a video track and no slow link is signalled.\<close>

definition healthyTick :: "bool \<times> RemoteFeed \<Rightarrow> bool" where
  "healthyTick tick = (\<not> (numVideoTracks (snd tick) = 0 \<or> fst tick))"


text \<open>
  A feed that is ready and signals no slow link, for examples: its tracks and its layers
  are given.
\<close>

definition feedAt :: "int \<Rightarrow> int \<Rightarrow> int \<Rightarrow> RemoteFeed" where
  "feedAt tracks current requested =
     \<lparr>feed_id = ''feed'', feed_state = RemoteFeedState.ready, streamId = ''stream'',
      numVideoTracks = tracks, currentSubstream = current, requestedSubstream = requested,
      feed_slowLink = False\<rparr>"

text \<open>The switch requests among the effects of a video box, as (feed, substream) pairs.\<close>

fun requests :: "box_effect list \<Rightarrow> (RemoteFeed \<times> int) list" where
  "requests [] = []"
| "requests (EmitRequestSubstream feed substreamId # es) = (feed, substreamId) # requests es"
| "requests (ConsoleLog a n v # es) = requests es"

section \<open>Lemmas on the video room component\<close>

lemma stateSwitch_subscribed [simp]: "subscribed (stateSwitch ri p c) = subscribed c"
  by (simp add: stateSwitch_def split: RoomInfoState.splits)

lemma stateSwitch_httpUrl [simp]: "httpUrl (stateSwitch ri p c) = httpUrl c"
  by (simp add: stateSwitch_def split: RoomInfoState.splits)

lemma stateSwitch_publishers [simp]:
  "filter isPublishers (trace (stateSwitch ri p c)) = filter isPublishers (trace c)"
  by (simp add: stateSwitch_def split: RoomInfoState.splits)

lemma stateSwitch_setMute [simp]:
  "filter isSetMute (trace (stateSwitch ri p c)) = filter isSetMute (trace c)"
  by (simp add: stateSwitch_def split: RoomInfoState.splits)

lemma stateSwitch_attach:
  "filter isAttach (trace (stateSwitch ri p c)) =
     filter isAttach (trace c) @
       (if state ri = RoomInfoState.initialized then [StoreAttachVideoRoom (janusServerUrl c)] else [])"
  by (simp add: stateSwitch_def split: RoomInfoState.splits)

lemma stateSwitch_register:
  "filter isRegister (trace (stateSwitch ri p c)) =
     filter isRegister (trace c) @
       (if state ri = RoomInfoState.attached
        then [StoreRegister (userName c) (userId c) (roomId c) p] else [])"
  by (simp add: stateSwitch_def split: RoomInfoState.splits)

lemma stateSwitch_errors:
  "filter isJanusError (trace (stateSwitch ri p c)) =
     filter isJanusError (trace c) @
       (if state ri = RoomInfoState.attach_failed \<and> janusServerUrl c = httpUrl c
        then [EmitJanusError 9999 ''Unable to connect to media server''] else [])"
  by (simp add: stateSwitch_def split: RoomInfoState.splits)

lemma stateSwitch_timers:
  "timers (stateSwitch ri p c) =
     timers c @ (if state ri = RoomInfoState.attach_failed \<and> janusServerUrl c \<noteq> httpUrl c
                 then [100] else [])"
  by (simp add: stateSwitch_def split: RoomInfoState.splits)

lemma stateSwitch_url:
  "janusServerUrl (stateSwitch ri p c) =
     (if state ri = RoomInfoState.attach_failed then httpUrl c else janusServerUrl c)"
  by (simp add: stateSwitch_def split: RoomInfoState.splits)

lemma beforeSwitch_fields [simp]:
  "subscribed (beforeSwitch T e c) = subscribed c"
  "httpUrl (beforeSwitch T e c) = httpUrl c"
  "janusServerUrl (beforeSwitch T e c) = janusServerUrl c"
  "timers (beforeSwitch T e c) = timers c"
  "userName (beforeSwitch T e c) = userName c"
  "userId (beforeSwitch T e c) = userId c"
  "roomId (beforeSwitch T e c) = roomId c"
  by (simp_all add: beforeSwitch_def)

lemma fatalErrorEvents_filters [simp]:
  "filter isJanusError (fatalErrorEvents T ri) = fatalErrorEvents T ri"
  "filter isAttach (fatalErrorEvents T ri) = []"
  "filter isRegister (fatalErrorEvents T ri) = []"
  "filter isSetMute (fatalErrorEvents T ri) = []"
  "filter isPublishers (fatalErrorEvents T ri) = []"
proof -
  consider "fatalErrorEvents T ri = []"
    | code message where "fatalErrorEvents T ri = [EmitJanusError code message]"
    unfolding fatalErrorEvents_def
    by (cases "publishState ri = PublishState.error"; cases "errorCode ri";
        cases "T (the (errorCode ri))"; simp)
  then show "filter isJanusError (fatalErrorEvents T ri) = fatalErrorEvents T ri"
    "filter isAttach (fatalErrorEvents T ri) = []"
    "filter isRegister (fatalErrorEvents T ri) = []"
    "filter isSetMute (fatalErrorEvents T ri) = []"
    "filter isPublishers (fatalErrorEvents T ri) = []"
    by (cases; simp)+
qed

lemma muteCommands_filters [simp]:
  "filter isSetMute (muteCommands ri c) = muteCommands ri c"
  "filter isAttach (muteCommands ri c) = []"
  "filter isRegister (muteCommands ri c) = []"
  "filter isJanusError (muteCommands ri c) = []"
  "filter isPublishers (muteCommands ri c) = []"
  by (simp_all add: muteCommands_def)

lemma beforeSwitch_trace:
  "trace (beforeSwitch T e c) =
     trace c @ muteCommands (fst e) c @ fatalErrorEvents T (fst e) @ [EmitPublishers (readyFeeds (snd e))]"
  by (simp add: beforeSwitch_def)

lemma subscriber_returns:
  "\<not> lookupFails T (fst e) \<Longrightarrow>
     subscriber T e c =
       Returned (stateSwitch (fst e) (if truthy (pin c) then pin c else None) (beforeSwitch T e c))"
  by (auto simp add: subscriber_def lookupFails_def fatalErrorEvents_def beforeSwitch_def
        muteCommands_def readyFeeds_def
        emitRemoteFeeds_def setMuted_def Let_def split: option.splits)

lemma subscriber_throws:
  "lookupFails T (fst e) \<Longrightarrow> subscriber T e c = Threw TypeError c"
  by (auto simp add: subscriber_def lookupFails_def setMuted_def Let_def split: option.splits)

lemma subscriber_Returned_D:
  assumes "subscriber T e c = Returned c'"
  shows "\<not> lookupFails T (fst e)"
    and "c' = stateSwitch (fst e) (if truthy (pin c) then pin c else None) (beforeSwitch T e c)"
  using assms subscriber_throws[of T e c] subscriber_returns[of T e c]
  by (cases "lookupFails T (fst e)"; simp)+

text \<open>One emission, counted.\<close>

lemma subscriber_counts:
  assumes "subscriber T e c = Returned c'"
  shows "length (filter isAttach (trace c')) =
           length (filter isAttach (trace c)) + (if state (fst e) = RoomInfoState.initialized then 1 else 0)"
    and "length (filter isRegister (trace c')) =
           length (filter isRegister (trace c)) + (if state (fst e) = RoomInfoState.attached then 1 else 0)"
    and "length (filter isJanusError (trace c')) + length (timers c') =
           length (filter isJanusError (trace c)) + length (timers c)
           + (if publishState (fst e) = PublishState.error then 1 else 0)
           + (if state (fst e) = RoomInfoState.attach_failed then 1 else 0)"
    and "subscribed c' = subscribed c"
proof -
  note d = subscriber_Returned_D[OF assms]
  show "length (filter isAttach (trace c')) =
           length (filter isAttach (trace c)) + (if state (fst e) = RoomInfoState.initialized then 1 else 0)"
    by (simp add: d(2) stateSwitch_attach beforeSwitch_trace)
  show "length (filter isRegister (trace c')) =
           length (filter isRegister (trace c)) + (if state (fst e) = RoomInfoState.attached then 1 else 0)"
    by (simp add: d(2) stateSwitch_register beforeSwitch_trace)
  have l: "length (fatalErrorEvents T (fst e)) = (if publishState (fst e) = PublishState.error then 1 else 0)"
    using d(1) by (auto simp add: lookupFails_def fatalErrorEvents_def split: option.splits)
  show "length (filter isJanusError (trace c')) + length (timers c') =
           length (filter isJanusError (trace c)) + length (timers c)
           + (if publishState (fst e) = PublishState.error then 1 else 0)
           + (if state (fst e) = RoomInfoState.attach_failed then 1 else 0)"
    by (simp add: d(2) stateSwitch_errors stateSwitch_timers beforeSwitch_trace l)
  show "subscribed c' = subscribed c" by (simp add: d(2))
qed

lemma run_Cons_emission:
  assumes "subscribed c" "run T (map StateEmission (e # es)) c = Returned c'"
  obtains c1 where "subscriber T e c = Returned c1" "subscribed c1"
    "run T (map StateEmission es) c1 = Returned c'"
proof -
  from assms obtain c1 where s: "subscriber T e c = Returned c1"
    and r: "run T (map StateEmission es) c1 = Returned c'"
    by (auto split: result.splits)
  have "subscribed c1" using subscriber_counts(4)[OF s] assms(1) by simp
  with s r that show thesis by blast
qed

lemma run_counts:
  "subscribed c \<Longrightarrow> run T (map StateEmission es) c = Returned c' \<Longrightarrow>
   length (filter isAttach (trace c')) =
     length (filter isAttach (trace c))
     + length (filter (\<lambda>e. state (fst e) = RoomInfoState.initialized) es) \<and>
   length (filter isRegister (trace c')) =
     length (filter isRegister (trace c))
     + length (filter (\<lambda>e. state (fst e) = RoomInfoState.attached) es) \<and>
   length (filter isJanusError (trace c')) + length (timers c') =
     length (filter isJanusError (trace c)) + length (timers c)
     + length (filter (\<lambda>e. publishState (fst e) = PublishState.error) es)
     + length (filter (\<lambda>e. state (fst e) = RoomInfoState.attach_failed) es)"
proof (induction es arbitrary: c)
  case Nil
  then show ?case by simp
next
  case (Cons e es)
  from Cons.prems obtain c1 where s: "subscriber T e c = Returned c1" and sub: "subscribed c1"
    and r: "run T (map StateEmission es) c1 = Returned c'"
    by (rule run_Cons_emission)
  note ih = Cons.IH[OF sub r]
  note k = subscriber_counts(1-3)[OF s]
  show ?case using ih k by simp
qed

lemma run_no_lookup_failure:
  "subscribed c \<Longrightarrow> run T (map StateEmission es) c = Returned c' \<Longrightarrow>
     \<forall>e\<in>set es. \<not> lookupFails T (fst e)"
proof (induction es arbitrary: c)
  case Nil
  then show ?case by simp
next
  case (Cons e es)
  from Cons.prems obtain c1 where s: "subscriber T e c = Returned c1" and sub: "subscribed c1"
    and r: "run T (map StateEmission es) c1 = Returned c'"
    by (rule run_Cons_emission)
  show ?case using Cons.IH[OF sub r] subscriber_Returned_D(1)[OF s] by simp
qed

lemma run_errors:
  "subscribed c \<Longrightarrow> run T (map StateEmission es) c = Returned c' \<Longrightarrow>
   \<forall>e\<in>set es. state (fst e) \<noteq> RoomInfoState.attach_failed \<Longrightarrow>
     filter isJanusError (trace c') =
       filter isJanusError (trace c) @ concat (map (\<lambda>e. fatalErrorEvents T (fst e)) es)"
proof (induction es arbitrary: c)
  case Nil
  then show ?case by simp
next
  case (Cons e es)
  from Cons.prems(1,2) obtain c1 where s: "subscriber T e c = Returned c1" and sub: "subscribed c1"
    and r: "run T (map StateEmission es) c1 = Returned c'"
    by (rule run_Cons_emission)
  have ne: "state (fst e) \<noteq> RoomInfoState.attach_failed" using Cons.prems(3) by simp
  have c1: "filter isJanusError (trace c1) = filter isJanusError (trace c) @ fatalErrorEvents T (fst e)"
    by (simp add: subscriber_Returned_D(2)[OF s] stateSwitch_errors beforeSwitch_trace ne)
  have "filter isJanusError (trace c') =
       filter isJanusError (trace c1) @ concat (map (\<lambda>e. fatalErrorEvents T (fst e)) es)"
    using Cons.IH[OF sub r] Cons.prems(3) by simp
  then show ?case by (simp add: c1)
qed

lemma run_publishers:
  "subscribed c \<Longrightarrow> run T (map StateEmission es) c = Returned c' \<Longrightarrow>
     filter isPublishers (trace c') =
       filter isPublishers (trace c) @ map (\<lambda>e. EmitPublishers (readyFeeds (snd e))) es"
proof (induction es arbitrary: c)
  case Nil
  then show ?case by simp
next
  case (Cons e es)
  from Cons.prems(1,2) obtain c1 where s: "subscriber T e c = Returned c1" and sub: "subscribed c1"
    and r: "run T (map StateEmission es) c1 = Returned c'"
    by (rule run_Cons_emission)
  have c1: "filter isPublishers (trace c1) =
      filter isPublishers (trace c) @ [EmitPublishers (readyFeeds (snd e))]"
    by (simp add: subscriber_Returned_D(2)[OF s] beforeSwitch_trace)
  show ?case using Cons.IH[OF sub r] by (simp add: c1)
qed

lemma fatalErrorEvents_mapped:
  "\<not> lookupFails T ri \<Longrightarrow> publishState ri = PublishState.error \<Longrightarrow>
     \<exists>code message. errorCode ri = Some code \<and> T code = Some message \<and>
       fatalErrorEvents T ri = [EmitJanusError code message]"
  by (cases "errorCode ri"; cases "T (the (errorCode ri))";
      simp add: lookupFails_def fatalErrorEvents_def)

lemma result_final: "returned r \<Longrightarrow> r = Returned (final r)"
  by (cases r) simp_all

lemmas example_defs =
  exampleComponent_def newComponent_def ngOnInit_def setupJanusRoom_def roomIn_def
  roomFailed_def subscriber_def stateSwitch_def emitRemoteFeeds_def setMuted_def Let_def

lemma example_subscribed: "subscribed exampleComponent"
  by (simp add: example_defs)

lemma resetLoop_timers [simp]: "timers (resetLoop keys changes c) = timers c"
  by (induction keys) (simp_all split: option.splits)

lemma timerFires_trace:
  "timers c \<noteq> [] \<Longrightarrow> trace (timerFires c) = trace c @ [StoreAttachVideoRoom (janusServerUrl c)]"
  by (cases "timers c") (simp_all add: timerFires_def)

lemma urlJustTried_attach:
  "filter isAttach tr' = filter isAttach tr @ [StoreAttachVideoRoom url] \<Longrightarrow>
     urlJustTried tr' = Some url"
  by (simp add: urlJustTried_def)

lemma urlJustTried_same:
  "filter isAttach tr' = filter isAttach tr \<Longrightarrow> urlJustTried tr' = urlJustTried tr"
  by (simp add: urlJustTried_def)

lemma subscriber_step:
  assumes "subscriber T e c = Returned c'"
  shows "filter isAttach (trace c') =
           filter isAttach (trace c) @
             (if state (fst e) = RoomInfoState.initialized
              then [StoreAttachVideoRoom (janusServerUrl c)] else [])"
    and "timers c' =
           timers c @
             (if state (fst e) = RoomInfoState.attach_failed \<and> janusServerUrl c \<noteq> httpUrl c
              then [100] else [])"
    and "janusServerUrl c' =
           (if state (fst e) = RoomInfoState.attach_failed then httpUrl c else janusServerUrl c)"
    and "httpUrl c' = httpUrl c"
    and "subscribed c' = subscribed c"
    and "filter isJanusError (trace c') =
           filter isJanusError (trace c) @ fatalErrorEvents T (fst e) @
             (if state (fst e) = RoomInfoState.attach_failed \<and> janusServerUrl c = httpUrl c
              then [EmitJanusError 9999 ''Unable to connect to media server''] else [])"
proof -
  note d = subscriber_Returned_D(2)[OF assms]
  show "filter isAttach (trace c') =
           filter isAttach (trace c) @
             (if state (fst e) = RoomInfoState.initialized
              then [StoreAttachVideoRoom (janusServerUrl c)] else [])"
    by (simp add: d stateSwitch_attach beforeSwitch_trace)
  show "timers c' =
           timers c @
             (if state (fst e) = RoomInfoState.attach_failed \<and> janusServerUrl c \<noteq> httpUrl c
              then [100] else [])"
    by (simp add: d stateSwitch_timers)
  show "janusServerUrl c' =
           (if state (fst e) = RoomInfoState.attach_failed then httpUrl c else janusServerUrl c)"
    by (simp add: d stateSwitch_url)
  show "httpUrl c' = httpUrl c" by (simp add: d)
  show "subscribed c' = subscribed c" by (simp add: d)
  show "filter isJanusError (trace c') =
           filter isJanusError (trace c) @ fatalErrorEvents T (fst e) @
             (if state (fst e) = RoomInfoState.attach_failed \<and> janusServerUrl c = httpUrl c
              then [EmitJanusError 9999 ''Unable to connect to media server''] else [])"
    by (simp add: d stateSwitch_errors beforeSwitch_trace)
qed

lemma run_append_Returned:
  "run T (xs @ ys) c = Returned c' \<Longrightarrow>
     \<exists>c1. run T xs c = Returned c1 \<and> run T ys c1 = Returned c'"
  by (induction xs arbitrary: c) (auto split: result.splits)

lemma run_emission_Returned:
  "subscribed c \<Longrightarrow> run T (StateEmission e # evs) c = Returned c' \<Longrightarrow>
     \<exists>c1. subscriber T e c = Returned c1 \<and> run T evs c1 = Returned c'"
  by (auto split: result.splits)

text \<open>Emissions in states that neither attach nor handle a failure leave the URL alone.\<close>

lemma run_quiet:
  "subscribed c \<Longrightarrow> run T (map StateEmission qs) c = Returned c' \<Longrightarrow>
   \<forall>e\<in>set qs. state (fst e) \<noteq> RoomInfoState.initialized \<and>
               state (fst e) \<noteq> RoomInfoState.attach_failed \<Longrightarrow>
     subscribed c' \<and> janusServerUrl c' = janusServerUrl c \<and> httpUrl c' = httpUrl c \<and>
     timers c' = timers c \<and> filter isAttach (trace c') = filter isAttach (trace c) \<and>
     filter isJanusError (trace c') =
       filter isJanusError (trace c) @ concat (map (\<lambda>e. fatalErrorEvents T (fst e)) qs)"
proof (induction qs arbitrary: c)
  case Nil
  then show ?case by simp
next
  case (Cons e qs)
  from Cons.prems(1,2) obtain c1 where s: "subscriber T e c = Returned c1" and sub: "subscribed c1"
    and r: "run T (map StateEmission qs) c1 = Returned c'"
    by (rule run_Cons_emission)
  have q: "state (fst e) \<noteq> RoomInfoState.initialized" "state (fst e) \<noteq> RoomInfoState.attach_failed"
    and qs: "\<forall>e\<in>set qs. state (fst e) \<noteq> RoomInfoState.initialized \<and>
               state (fst e) \<noteq> RoomInfoState.attach_failed"
    using Cons.prems(3) by simp_all
  note ih = Cons.IH[OF sub r qs]
  note k = subscriber_step[OF s]
  show ?case using ih k q by simp
qed

lemma timerFires_fields [simp]:
  "janusServerUrl (timerFires c) = janusServerUrl c"
  "httpUrl (timerFires c) = httpUrl c"
  "subscribed (timerFires c) = subscribed c"
  "timers (timerFires c) = tl (timers c)"
  by (cases "timers c"; simp add: timerFires_def)+

lemma attach_failure_step:
  assumes "state roomInfo = RoomInfoState.attach_failed" and "\<not> lookupFails T roomInfo"
    and "urlJustTried (trace c) = Some url" and "janusServerUrl c = url"
  shows "\<exists>c'. subscriber T (roomInfo, remoteFeeds) c = Returned c' \<and>
           filter isAttach (trace c') = filter isAttach (trace c) \<and>
           (if url \<noteq> httpUrl c
            then timers c' = timers c @ [100] \<and>
                 filter isJanusError (trace c') =
                   filter isJanusError (trace c) @ fatalErrorEvents T roomInfo \<and>
                 filter isAttach (trace (timerFires c')) =
                   filter isAttach (trace c) @ [StoreAttachVideoRoom (httpUrl c)] \<and>
                 urlJustTried (trace (timerFires c')) = Some (janusServerUrl (timerFires c'))
            else timers c' = timers c \<and>
                 filter isJanusError (trace c') =
                   filter isJanusError (trace c) @ fatalErrorEvents T roomInfo @
                     [EmitJanusError 9999 ''Unable to connect to media server''])"
proof -
  let ?e = "(roomInfo, remoteFeeds)"
  let ?c = "stateSwitch roomInfo (if truthy (pin c) then pin c else None) (beforeSwitch T ?e c)"
  have s: "subscriber T ?e c = Returned ?c"
    using subscriber_returns[of T ?e c] assms(2) by simp
  note k = subscriber_step[OF s]
  have a: "filter isAttach (trace ?c) = filter isAttach (trace c)"
    using k(1) assms(1) by simp
  have t: "timers ?c = timers c @ (if url \<noteq> httpUrl c then [100] else [])"
    using k(2) assms(1,4) by simp
  have u: "janusServerUrl ?c = httpUrl c" using k(3) assms(1) by simp
  have e: "filter isJanusError (trace ?c) =
      filter isJanusError (trace c) @ fatalErrorEvents T roomInfo @
        (if url = httpUrl c
         then [EmitJanusError 9999 ''Unable to connect to media server''] else [])"
    using k(6) assms(1,4) by simp
  have f: "url \<noteq> httpUrl c \<Longrightarrow>
      trace (timerFires ?c) = trace ?c @ [StoreAttachVideoRoom (httpUrl c)]"
    using timerFires_trace[of ?c] t u by simp
  have g: "janusServerUrl (timerFires ?c) = httpUrl c"
    using u by simp
  show ?thesis
  proof (cases "url = httpUrl c")
    case True
    then show ?thesis using s a t e by simp
  next
    case False
    have fa: "filter isAttach (trace (timerFires ?c)) =
        filter isAttach (trace c) @ [StoreAttachVideoRoom (httpUrl c)]"
      using f[OF False] a by simp
    have "urlJustTried (trace (timerFires ?c)) = Some (httpUrl c)"
      using fa by (rule urlJustTried_attach)
    then show ?thesis using False s a t e fa g by simp
  qed
qed

lemma one_retry_then_fatal:
  assumes sub: "subscribed c" and tm: "timers c = []"
    and ne: "janusServerUrl c \<noteq> httpUrl c"
    and s0: "state ri0 = RoomInfoState.initialized"
    and s1: "state ri1 = RoomInfoState.attach_failed"
    and s2: "state ri2 = RoomInfoState.attach_failed"
    and q: "\<forall>e\<in>set (q1 @ q2). state (fst e) \<noteq> RoomInfoState.initialized \<and>
               state (fst e) \<noteq> RoomInfoState.attach_failed"
    and r: "run T (StateEmission (ri0, f0) # map StateEmission q1 @
                   [StateEmission (ri1, f1), TimerFires] @ map StateEmission q2 @
                   [StateEmission (ri2, f2)]) c = Returned c'"
  shows "filter isAttach (trace c') =
           filter isAttach (trace c) @
             [StoreAttachVideoRoom (janusServerUrl c), StoreAttachVideoRoom (httpUrl c)] \<and>
         timers c' = [] \<and>
         filter isJanusError (trace c') =
           filter isJanusError (trace c) @
             concat (map (\<lambda>e. fatalErrorEvents T (fst e))
                       ((ri0, f0) # q1 @ [(ri1, f1)] @ q2 @ [(ri2, f2)])) @
             [EmitJanusError 9999 ''Unable to connect to media server'']"
proof -
  have q1: "\<forall>e\<in>set q1. state (fst e) \<noteq> RoomInfoState.initialized \<and>
               state (fst e) \<noteq> RoomInfoState.attach_failed"
    and q2: "\<forall>e\<in>set q2. state (fst e) \<noteq> RoomInfoState.initialized \<and>
               state (fst e) \<noteq> RoomInfoState.attach_failed"
    using q by simp_all
  from run_emission_Returned[OF sub r] obtain a
    where a: "subscriber T (ri0, f0) c = Returned a"
      and ra: "run T (map StateEmission q1 @ [StateEmission (ri1, f1), TimerFires] @
                 map StateEmission q2 @ [StateEmission (ri2, f2)]) a = Returned c'"
    by blast
  note ka = subscriber_step[OF a]
  have suba: "subscribed a" using ka(5) sub by simp
  from run_append_Returned[OF ra] obtain b
    where b: "run T (map StateEmission q1) a = Returned b"
      and rb: "run T ([StateEmission (ri1, f1), TimerFires] @
                 map StateEmission q2 @ [StateEmission (ri2, f2)]) b = Returned c'"
    by blast
  note kb = run_quiet[OF suba b q1]
  have subb: "subscribed b" using kb by simp
  from rb have rb': "run T (StateEmission (ri1, f1) # TimerFires #
                 map StateEmission q2 @ [StateEmission (ri2, f2)]) b = Returned c'"
    by simp
  from run_emission_Returned[OF subb rb'] obtain d
    where d: "subscriber T (ri1, f1) b = Returned d"
      and rd: "run T (TimerFires # map StateEmission q2 @ [StateEmission (ri2, f2)]) d
                 = Returned c'"
    by blast
  note kd = subscriber_step[OF d]
  have urlb: "janusServerUrl b = janusServerUrl c" "httpUrl b = httpUrl c" "timers b = []"
    using kb ka s0 tm by simp_all
  have td: "timers d = [100]" "janusServerUrl d = httpUrl c" "httpUrl d = httpUrl c"
    "subscribed d"
    using kd s1 urlb ne subb by simp_all
  let ?e = "timerFires d"
  have re: "run T (map StateEmission q2 @ [StateEmission (ri2, f2)]) ?e = Returned c'"
    using rd by simp
  have te: "timers ?e = []" "janusServerUrl ?e = httpUrl c" "httpUrl ?e = httpUrl c"
    "subscribed ?e" "trace ?e = trace d @ [StoreAttachVideoRoom (httpUrl c)]"
    using td timerFires_trace[of d] by simp_all
  from run_append_Returned[OF re] obtain f
    where f: "run T (map StateEmission q2) ?e = Returned f"
      and rf: "run T [StateEmission (ri2, f2)] f = Returned c'"
    by blast
  note kf = run_quiet[OF te(4) f q2]
  have subf: "subscribed f" using kf by simp
  from run_emission_Returned[OF subf rf] have g: "subscriber T (ri2, f2) f = Returned c'"
    by simp
  note kg = subscriber_step[OF g]
  have urlf: "janusServerUrl f = httpUrl f" "timers f = []"
    using kf te by simp_all
  let ?F = "\<lambda>e. fatalErrorEvents T (fst e)"
  have aa: "filter isAttach (trace a) =
      filter isAttach (trace c) @ [StoreAttachVideoRoom (janusServerUrl c)]"
    using ka(1) s0 by simp
  have ab: "filter isAttach (trace b) = filter isAttach (trace a)" using kb by simp
  have ad: "filter isAttach (trace d) = filter isAttach (trace b)" using kd(1) s1 by simp
  have ae: "filter isAttach (trace ?e) =
      filter isAttach (trace d) @ [StoreAttachVideoRoom (httpUrl c)]"
    using te(5) by simp
  have af: "filter isAttach (trace f) = filter isAttach (trace ?e)" using kf by simp
  have ag: "filter isAttach (trace c') = filter isAttach (trace f)" using kg(1) s2 by simp
  have A: "filter isAttach (trace c') =
           filter isAttach (trace c) @
             [StoreAttachVideoRoom (janusServerUrl c), StoreAttachVideoRoom (httpUrl c)]"
    by (simp add: ag af ae ad ab aa)
  have B: "timers c' = []" using kg(2) urlf s2 by simp
  have ea: "filter isJanusError (trace a) = filter isJanusError (trace c) @ ?F (ri0, f0)"
    using ka(6) s0 by simp
  have eb: "filter isJanusError (trace b) = filter isJanusError (trace a) @ concat (map ?F q1)"
    using kb by simp
  have ed: "filter isJanusError (trace d) = filter isJanusError (trace b) @ ?F (ri1, f1)"
    using kd(6) s1 urlb ne by simp
  have ee: "filter isJanusError (trace ?e) = filter isJanusError (trace d)"
    using te(5) by simp
  have ef: "filter isJanusError (trace f) = filter isJanusError (trace ?e) @ concat (map ?F q2)"
    using kf by simp
  have eg: "filter isJanusError (trace c') =
      filter isJanusError (trace f) @ ?F (ri2, f2) @
        [EmitJanusError 9999 ''Unable to connect to media server'']"
    using kg(6) s2 urlf by simp
  have C: "filter isJanusError (trace c') =
           filter isJanusError (trace c) @
             concat (map ?F ((ri0, f0) # q1 @ [(ri1, f1)] @ q2 @ [(ri2, f2)])) @
             [EmitJanusError 9999 ''Unable to connect to media server'']"
    by (simp add: eg ef ee ed eb ea)
  show ?thesis using A B C by simp
qed

section \<open>The claims on the video room component\<close>

text \<open>
  Claim C2, as stated: the action for the current state is performed once per distinct
  state value, and a repeat emission of an unchanged state does not trigger it again.
  The subscriber keeps no record of the last state it saw, so this fails: two emissions
  in state \<^verbatim>\<open>initialized\<close> call \<^verbatim>\<open>attachVideoRoom\<close> twice.
\<close>

theorem state_action_repeated_counterexample:
  "returned (run Map.empty
      (map StateEmission [(roomIn RoomInfoState.initialized, []),
                          (roomIn RoomInfoState.initialized, [])]) exampleComponent) \<and>
   filter isAttach (trace (final (run Map.empty
      (map StateEmission [(roomIn RoomInfoState.initialized, []),
                          (roomIn RoomInfoState.initialized, [])]) exampleComponent))) =
     [StoreAttachVideoRoom (Some ''wss://janus.conf.meetecho.com/ws''),
      StoreAttachVideoRoom (Some ''wss://janus.conf.meetecho.com/ws'')]"
  by (simp add: example_defs)

text \<open>
  Claim C2, amended: the action for the current state is performed once per emission,
  repeats included. Over any run of emissions that the subscriber handles without
  throwing, the calls of \<^verbatim>\<open>attachVideoRoom\<close> made by the subscriber are as many as the
  emissions in state \<^verbatim>\<open>initialized\<close>, the calls of \<^verbatim>\<open>register\<close> as many as the emissions
  in state \<^verbatim>\<open>attached\<close>, and the failure handling (a retry timer scheduled or a fatal
  error emitted) happens once per emission in state \<^verbatim>\<open>attach_failed\<close>: the error events
  and the timers together grow by the number of emissions whose publish state is an error
  plus the number of emissions in state \<^verbatim>\<open>attach_failed\<close>.
\<close>

theorem state_action_once_per_emission:
  assumes "subscribed c" and "run T (map StateEmission es) c = Returned c'"
  shows "length (filter isAttach (trace c')) =
           length (filter isAttach (trace c))
           + length (filter (\<lambda>e. state (fst e) = RoomInfoState.initialized) es) \<and>
         length (filter isRegister (trace c')) =
           length (filter isRegister (trace c))
           + length (filter (\<lambda>e. state (fst e) = RoomInfoState.attached) es) \<and>
         length (filter isJanusError (trace c')) + length (timers c') =
           length (filter isJanusError (trace c)) + length (timers c)
           + length (filter (\<lambda>e. publishState (fst e) = PublishState.error) es)
           + length (filter (\<lambda>e. state (fst e) = RoomInfoState.attach_failed) es)"
  using run_counts[OF assms] .

theorem state_action_once_per_emission_witness:
  "subscribed exampleComponent \<and>
   returned (run Map.empty
      (map StateEmission [(roomIn RoomInfoState.initialized, []),
                          (roomIn RoomInfoState.initialized, [])]) exampleComponent) \<and>
   length (filter isAttach (trace (final (run Map.empty
      (map StateEmission [(roomIn RoomInfoState.initialized, []),
                          (roomIn RoomInfoState.initialized, [])]) exampleComponent)))) = 2"
proof -
  let ?es = "[(roomIn RoomInfoState.initialized, []), (roomIn RoomInfoState.initialized, [])]"
  let ?r = "run Map.empty (map StateEmission ?es) exampleComponent"
  have ret: "returned ?r" by (simp add: example_defs)
  then have r: "?r = Returned (final ?r)" by (rule result_final)
  have t: "trace exampleComponent = [StoreInitialize [''stun:stun2.l.google.com:19302'']]"
    by (simp add: example_defs)
  have "length (filter isAttach (trace (final ?r))) = 2"
    using state_action_once_per_emission[OF example_subscribed r]
    by (simp add: t roomIn_def)
  with ret example_subscribed show ?thesis by simp
qed

text \<open>
  Claim C3, as stated: a fatal error event is emitted once per transition into the error
  publish state, and repeated emissions of an unchanged error state do not emit it again.
  The subscriber emits the event on every emission whose publish state is an error: two
  emissions of the same failed room give two events.
\<close>

theorem fatal_error_repeated_counterexample:
  "returned (run [426 \<mapsto> ''No such room'']
      (map StateEmission [(roomFailed 426, []), (roomFailed 426, [])]) exampleComponent) \<and>
   filter isJanusError (trace (final (run [426 \<mapsto> ''No such room'']
      (map StateEmission [(roomFailed 426, []), (roomFailed 426, [])]) exampleComponent))) =
     [EmitJanusError 426 ''No such room'', EmitJanusError 426 ''No such room'']"
  by (simp add: example_defs)

text \<open>
  Claim C3, amended: a fatal error event with the code and its message from the table is
  emitted once per emission whose publish state is an error, repeats included. Over any
  run of emissions that the subscriber handles without throwing and that has no emission
  in state \<^verbatim>\<open>attach_failed\<close> (whose own error event is the subject of C1), the error
  events emitted are, in order, exactly one \<open>{code, message}\<close> per emission whose publish
  state is an error.
\<close>

theorem fatal_error_once_per_emission:
  assumes "subscribed c" and "run T (map StateEmission es) c = Returned c'"
    and "\<forall>e\<in>set es. state (fst e) \<noteq> RoomInfoState.attach_failed"
  shows "filter isJanusError (trace c') =
           filter isJanusError (trace c) @ concat (map (\<lambda>e. fatalErrorEvents T (fst e)) es) \<and>
         (\<forall>e\<in>set es. publishState (fst e) = PublishState.error \<longrightarrow>
            (\<exists>code message. errorCode (fst e) = Some code \<and> T code = Some message \<and>
               fatalErrorEvents T (fst e) = [EmitJanusError code message]))"
proof
  show "filter isJanusError (trace c') =
           filter isJanusError (trace c) @ concat (map (\<lambda>e. fatalErrorEvents T (fst e)) es)"
    using assms by (rule run_errors)
  show "\<forall>e\<in>set es. publishState (fst e) = PublishState.error \<longrightarrow>
            (\<exists>code message. errorCode (fst e) = Some code \<and> T code = Some message \<and>
               fatalErrorEvents T (fst e) = [EmitJanusError code message])"
    using run_no_lookup_failure[OF assms(1,2)] fatalErrorEvents_mapped by blast
qed

theorem fatal_error_once_per_emission_witness:
  "subscribed exampleComponent \<and>
   returned (run [426 \<mapsto> ''No such room'']
      (map StateEmission [(roomFailed 426, []), (roomFailed 426, [])]) exampleComponent) \<and>
   filter isJanusError (trace (final (run [426 \<mapsto> ''No such room'']
      (map StateEmission [(roomFailed 426, []), (roomFailed 426, [])]) exampleComponent))) =
     [EmitJanusError 426 ''No such room'', EmitJanusError 426 ''No such room'']"
proof -
  let ?T = "[426 \<mapsto> ''No such room'']"
  let ?es = "[(roomFailed 426, []), (roomFailed 426, [])]"
  let ?r = "run ?T (map StateEmission ?es) exampleComponent"
  have ret: "returned ?r" by (simp add: example_defs)
  then have r: "?r = Returned (final ?r)" by (rule result_final)
  have t: "trace exampleComponent = [StoreInitialize [''stun:stun2.l.google.com:19302'']]"
    by (simp add: example_defs)
  have ne: "\<forall>e\<in>set ?es. state (fst e) \<noteq> RoomInfoState.attach_failed"
    by (simp add: roomFailed_def)
  have "filter isJanusError (trace (final ?r)) =
     [EmitJanusError 426 ''No such room'', EmitJanusError 426 ''No such room'']"
    using fatal_error_once_per_emission[OF example_subscribed r ne]
    by (simp add: t roomFailed_def fatalErrorEvents_def)
  with ret example_subscribed show ?thesis by simp
qed

text \<open>
  Claim C4, as stated: an error code that the table does not have still surfaces, with a
  generic message, and never causes a throw. The subscriber reads the message of the
  table's entry without checking that there is one, and the source has no generic
  message: with code 499 and a table that has only 426, it throws before it emits
  anything.
\<close>

theorem unmapped_code_throws_counterexample:
  "subscriber [426 \<mapsto> ''No such room''] (roomFailed 499, []) exampleComponent =
     Threw TypeError exampleComponent"
  by (simp add: subscriber_def roomFailed_def Let_def)

text \<open>
  Claim C4, amended: when the publish state is an error, every error code that the table
  has is emitted as a fatal error event with that code and the table's message, followed
  by the publisher list, and the subscriber returns. (The source has no generic message
  for other codes.)
\<close>

theorem error_event_for_mapped_codes:
  assumes "publishState roomInfo = PublishState.error"
    and "errorCode roomInfo = Some code" and "T code = Some message"
  shows "\<exists>c' rest. subscriber T (roomInfo, remoteFeeds) c = Returned c' \<and>
           trace c' = trace c @ [EmitJanusError code message,
                                 EmitPublishers (readyFeeds remoteFeeds)] @ rest"
proof -
  let ?p = "if truthy (pin c) then pin c else None"
  let ?b = "beforeSwitch T (roomInfo, remoteFeeds) c"
  have nf: "\<not> lookupFails T (fst (roomInfo, remoteFeeds))"
    using assms(2,3) by (simp add: lookupFails_def)
  have s: "subscriber T (roomInfo, remoteFeeds) c = Returned (stateSwitch roomInfo ?p ?b)"
    using subscriber_returns[OF nf, of c] by simp
  have b: "trace ?b =
      trace c @ [EmitJanusError code message, EmitPublishers (readyFeeds remoteFeeds)]"
    using assms by (simp add: beforeSwitch_trace muteCommands_def fatalErrorEvents_def)
  have "\<exists>rest. trace (stateSwitch roomInfo ?p ?b) = trace ?b @ rest"
    by (simp add: stateSwitch_def split: RoomInfoState.splits)
  then obtain rest where "trace (stateSwitch roomInfo ?p ?b) = trace ?b @ rest" ..
  with s b show ?thesis by simp
qed

theorem error_event_for_mapped_codes_witness:
  "publishState (roomFailed 426) = PublishState.error \<and>
   errorCode (roomFailed 426) = Some 426 \<and>
   [426 \<mapsto> ''No such room''] (426::int) = Some ''No such room'' \<and>
   (\<exists>c' rest. subscriber [426 \<mapsto> ''No such room''] (roomFailed 426, []) exampleComponent
                 = Returned c' \<and>
      trace c' = trace exampleComponent @
        [EmitJanusError 426 ''No such room'', EmitPublishers (readyFeeds [])] @ rest)"
proof -
  have p: "publishState (roomFailed 426) = PublishState.error"
    and e: "errorCode (roomFailed 426) = Some 426"
    by (simp_all add: roomFailed_def)
  have t: "[426 \<mapsto> ''No such room''] (426::int) = Some ''No such room''" by simp
  show ?thesis
    using error_event_for_mapped_codes[of "roomFailed 426" 426 "[426 \<mapsto> ''No such room'']"
        "''No such room''" "[]" exampleComponent] p e t
    by simp
qed

text \<open>
  Claim C1. An attach failure is an emission in state \<^verbatim>\<open>attach_failed\<close> that reports the
  failure of the attach last made: the URL just tried, \<open>urlJustTried\<close> of the trace, is
  the component's server URL. (Every call of \<^verbatim>\<open>attachVideoRoom\<close> is made with the server
  URL, by the subscriber in state \<^verbatim>\<open>initialized\<close> or by the timer; a second emission in
  state \<^verbatim>\<open>attach_failed\<close> before the timer has run is the repeat emission of C2.) The
  subscriber reaches the failure handling (\<open>\<not> lookupFails\<close>: the emission is not also a
  publish error whose code the table lacks, the subject of C4).

  First part, one failure: if the URL just tried differs from the http URL, exactly one
  timer is scheduled, with delay 100, this emission calls no attach and emits no
  sentinel error, and when the timer runs the one attach it adds is against the http
  URL, which is then the URL just tried; if the URL just tried is the http URL (also
  when the two URLs were the same from the start), no timer is scheduled, no attach is
  called, and the failure handling adds the one error event with code 9999 and message
  \<^verbatim>\<open>Unable to connect to media server\<close>. \<open>fatalErrorEvents\<close> is the event of a publish error
  that comes with the same emission, empty when there is none. The http URL may be unset:
  the source tests only that the two URLs differ, so the retry is then an attach with no
  URL.

  Second part, the whole course, from any subscribed component with no timer pending
  whose server URL differs from the http URL: an emission in state \<^verbatim>\<open>initialized\<close>, a
  failure, the timer, a second failure, with any emissions in other states in between,
  all handled without throwing. The attach calls added are exactly two, against the
  server URL and then against the http URL; no timer is left; and the sentinel error is
  emitted once, at the end.
\<close>

theorem attach_failure_retries_once_then_fatal:
  "(state roomInfo = RoomInfoState.attach_failed \<and> \<not> lookupFails T roomInfo \<and>
    urlJustTried (trace c) = Some url \<and> janusServerUrl c = url \<longrightarrow>
      (\<exists>c'. subscriber T (roomInfo, remoteFeeds) c = Returned c' \<and>
         filter isAttach (trace c') = filter isAttach (trace c) \<and>
         (if url \<noteq> httpUrl c
          then timers c' = timers c @ [100] \<and>
               filter isJanusError (trace c') =
                 filter isJanusError (trace c) @ fatalErrorEvents T roomInfo \<and>
               filter isAttach (trace (timerFires c')) =
                 filter isAttach (trace c) @ [StoreAttachVideoRoom (httpUrl c)] \<and>
               urlJustTried (trace (timerFires c')) = Some (janusServerUrl (timerFires c'))
          else timers c' = timers c \<and>
               filter isJanusError (trace c') =
                 filter isJanusError (trace c) @ fatalErrorEvents T roomInfo @
                   [EmitJanusError 9999 ''Unable to connect to media server'']))) \<and>
   (subscribed k \<and> timers k = [] \<and> janusServerUrl k \<noteq> httpUrl k \<and>
    state ri0 = RoomInfoState.initialized \<and>
    state ri1 = RoomInfoState.attach_failed \<and>
    state ri2 = RoomInfoState.attach_failed \<and>
    (\<forall>e\<in>set (q1 @ q2). state (fst e) \<noteq> RoomInfoState.initialized \<and>
                         state (fst e) \<noteq> RoomInfoState.attach_failed) \<and>
    run T (StateEmission (ri0, f0) # map StateEmission q1 @
           [StateEmission (ri1, f1), TimerFires] @ map StateEmission q2 @
           [StateEmission (ri2, f2)]) k = Returned k' \<longrightarrow>
      filter isAttach (trace k') =
        filter isAttach (trace k) @
          [StoreAttachVideoRoom (janusServerUrl k), StoreAttachVideoRoom (httpUrl k)] \<and>
      timers k' = [] \<and>
      filter isJanusError (trace k') =
        filter isJanusError (trace k) @
          concat (map (\<lambda>e. fatalErrorEvents T (fst e))
                    ((ri0, f0) # q1 @ [(ri1, f1)] @ q2 @ [(ri2, f2)])) @
          [EmitJanusError 9999 ''Unable to connect to media server''])"
proof (rule conjI; rule impI)
  assume "state roomInfo = RoomInfoState.attach_failed \<and> \<not> lookupFails T roomInfo \<and>
    urlJustTried (trace c) = Some url \<and> janusServerUrl c = url"
  then show "\<exists>c'. subscriber T (roomInfo, remoteFeeds) c = Returned c' \<and>
         filter isAttach (trace c') = filter isAttach (trace c) \<and>
         (if url \<noteq> httpUrl c
          then timers c' = timers c @ [100] \<and>
               filter isJanusError (trace c') =
                 filter isJanusError (trace c) @ fatalErrorEvents T roomInfo \<and>
               filter isAttach (trace (timerFires c')) =
                 filter isAttach (trace c) @ [StoreAttachVideoRoom (httpUrl c)] \<and>
               urlJustTried (trace (timerFires c')) = Some (janusServerUrl (timerFires c'))
          else timers c' = timers c \<and>
               filter isJanusError (trace c') =
                 filter isJanusError (trace c) @ fatalErrorEvents T roomInfo @
                   [EmitJanusError 9999 ''Unable to connect to media server''])"
    using attach_failure_step[of roomInfo T c url remoteFeeds] by blast
next
  assume h: "subscribed k \<and> timers k = [] \<and> janusServerUrl k \<noteq> httpUrl k \<and>
    state ri0 = RoomInfoState.initialized \<and>
    state ri1 = RoomInfoState.attach_failed \<and>
    state ri2 = RoomInfoState.attach_failed \<and>
    (\<forall>e\<in>set (q1 @ q2). state (fst e) \<noteq> RoomInfoState.initialized \<and>
                         state (fst e) \<noteq> RoomInfoState.attach_failed) \<and>
    run T (StateEmission (ri0, f0) # map StateEmission q1 @
           [StateEmission (ri1, f1), TimerFires] @ map StateEmission q2 @
           [StateEmission (ri2, f2)]) k = Returned k'"
  show "filter isAttach (trace k') =
        filter isAttach (trace k) @
          [StoreAttachVideoRoom (janusServerUrl k), StoreAttachVideoRoom (httpUrl k)] \<and>
      timers k' = [] \<and>
      filter isJanusError (trace k') =
        filter isJanusError (trace k) @
          concat (map (\<lambda>e. fatalErrorEvents T (fst e))
                    ((ri0, f0) # q1 @ [(ri1, f1)] @ q2 @ [(ri2, f2)])) @
          [EmitJanusError 9999 ''Unable to connect to media server'']"
    by (rule one_retry_then_fatal[of k ri0 ri1 ri2 q1 q2 T f0 f1 f2 k']) (use h in blast)+
qed

theorem attach_failure_retries_once_then_fatal_witness:
  "returned (run Map.empty
      (StateEmission (roomIn RoomInfoState.initialized, []) #
       map StateEmission [(roomIn RoomInfoState.attaching, [])] @
       [StateEmission (roomIn RoomInfoState.attach_failed, []), TimerFires] @
       map StateEmission [(roomIn RoomInfoState.attaching, [])] @
       [StateEmission (roomIn RoomInfoState.attach_failed, [])]) exampleComponent) \<and>
   filter isAttach (trace (final (run Map.empty
      (StateEmission (roomIn RoomInfoState.initialized, []) #
       map StateEmission [(roomIn RoomInfoState.attaching, [])] @
       [StateEmission (roomIn RoomInfoState.attach_failed, []), TimerFires] @
       map StateEmission [(roomIn RoomInfoState.attaching, [])] @
       [StateEmission (roomIn RoomInfoState.attach_failed, [])]) exampleComponent))) =
     [StoreAttachVideoRoom (Some ''wss://janus.conf.meetecho.com/ws''),
      StoreAttachVideoRoom (Some ''https://janus.conf.meetecho.com/janus'')] \<and>
   filter isJanusError (trace (final (run Map.empty
      (StateEmission (roomIn RoomInfoState.initialized, []) #
       map StateEmission [(roomIn RoomInfoState.attaching, [])] @
       [StateEmission (roomIn RoomInfoState.attach_failed, []), TimerFires] @
       map StateEmission [(roomIn RoomInfoState.attaching, [])] @
       [StateEmission (roomIn RoomInfoState.attach_failed, [])]) exampleComponent))) =
     [EmitJanusError 9999 ''Unable to connect to media server''] \<and>
   urlJustTried (trace (final (subscriber Map.empty (roomIn RoomInfoState.initialized, [])
      exampleComponent))) = Some (Some ''wss://janus.conf.meetecho.com/ws'') \<and>
   (\<exists>c'. subscriber Map.empty (roomIn RoomInfoState.attach_failed, [])
            (final (subscriber Map.empty (roomIn RoomInfoState.initialized, [])
               exampleComponent)) = Returned c' \<and>
      timers c' = [100] \<and>
      filter isAttach (trace (timerFires c')) =
        [StoreAttachVideoRoom (Some ''wss://janus.conf.meetecho.com/ws''),
         StoreAttachVideoRoom (Some ''https://janus.conf.meetecho.com/janus'')] \<and>
      filter isJanusError (trace c') = []) \<and>
   httpUrl wsOnlyComponent = None \<and>
   urlJustTried (trace (final (subscriber Map.empty (roomIn RoomInfoState.initialized, [])
      wsOnlyComponent))) = Some (Some ''wss://janus.conf.meetecho.com/ws'') \<and>
   (\<exists>c'. subscriber Map.empty (roomIn RoomInfoState.attach_failed, [])
            (final (subscriber Map.empty (roomIn RoomInfoState.initialized, [])
               wsOnlyComponent)) = Returned c' \<and>
      timers c' = [100] \<and>
      filter isAttach (trace (timerFires c')) =
        [StoreAttachVideoRoom (Some ''wss://janus.conf.meetecho.com/ws''),
         StoreAttachVideoRoom None])"
proof -
  let ?q = "[(roomIn RoomInfoState.attaching, [])]"
  let ?evs = "StateEmission (roomIn RoomInfoState.initialized, []) # map StateEmission ?q @
       [StateEmission (roomIn RoomInfoState.attach_failed, []), TimerFires] @
       map StateEmission ?q @ [StateEmission (roomIn RoomInfoState.attach_failed, [])]"
  let ?r = "run Map.empty ?evs exampleComponent"
  let ?c1 = "final (subscriber Map.empty (roomIn RoomInfoState.initialized, []) exampleComponent)"
  note t = attach_failure_retries_once_then_fatal
  have ret: "returned ?r" by (simp add: example_defs timerFires_def)
  then have r: "?r = Returned (final ?r)" by (rule result_final)
  have ex: "subscribed exampleComponent" "timers exampleComponent = []"
    "janusServerUrl exampleComponent = Some ''wss://janus.conf.meetecho.com/ws''"
    "httpUrl exampleComponent = Some ''https://janus.conf.meetecho.com/janus''"
    "filter isAttach (trace exampleComponent) = []"
    "filter isJanusError (trace exampleComponent) = []"
    by (simp_all add: example_defs)
  have st: "state (roomIn RoomInfoState.initialized) = RoomInfoState.initialized"
    "state (roomIn RoomInfoState.attach_failed) = RoomInfoState.attach_failed"
    "state (roomIn RoomInfoState.attaching) = RoomInfoState.attaching"
    and nf: "\<not> lookupFails Map.empty (roomIn RoomInfoState.attach_failed)"
    and fe: "fatalErrorEvents Map.empty (roomIn RoomInfoState.initialized) = []"
      "fatalErrorEvents Map.empty (roomIn RoomInfoState.attach_failed) = []"
      "fatalErrorEvents Map.empty (roomIn RoomInfoState.attaching) = []"
    by (simp_all add: roomIn_def lookupFails_def fatalErrorEvents_def)
  have B: "filter isAttach (trace (final ?r)) =
     [StoreAttachVideoRoom (Some ''wss://janus.conf.meetecho.com/ws''),
      StoreAttachVideoRoom (Some ''https://janus.conf.meetecho.com/janus'')] \<and>
     filter isJanusError (trace (final ?r)) =
       [EmitJanusError 9999 ''Unable to connect to media server'']"
    using t[THEN conjunct2, rule_format,
        of exampleComponent "roomIn RoomInfoState.initialized"
          "roomIn RoomInfoState.attach_failed" "roomIn RoomInfoState.attach_failed"
          ?q ?q Map.empty "[]" "[]" "[]" "final ?r"] r ex st
    by (simp add: fe)
  have c1: "urlJustTried (trace ?c1) = Some (Some ''wss://janus.conf.meetecho.com/ws'')"
    "janusServerUrl ?c1 = Some ''wss://janus.conf.meetecho.com/ws''"
    "httpUrl ?c1 = Some ''https://janus.conf.meetecho.com/janus''"
    "timers ?c1 = []"
    "filter isAttach (trace ?c1) = [StoreAttachVideoRoom (Some ''wss://janus.conf.meetecho.com/ws'')]"
    "filter isJanusError (trace ?c1) = []"
    by (simp_all add: example_defs urlJustTried_def)
  have A: "\<exists>c'. subscriber Map.empty (roomIn RoomInfoState.attach_failed, []) ?c1 = Returned c' \<and>
      timers c' = [100] \<and>
      filter isAttach (trace (timerFires c')) =
        [StoreAttachVideoRoom (Some ''wss://janus.conf.meetecho.com/ws''),
         StoreAttachVideoRoom (Some ''https://janus.conf.meetecho.com/janus'')] \<and>
      filter isJanusError (trace c') = []"
    using t[THEN conjunct1, rule_format,
        of "roomIn RoomInfoState.attach_failed" Map.empty ?c1
          "Some ''wss://janus.conf.meetecho.com/ws''" "[]"] st nf c1
    by (auto simp add: fe)
  let ?d1 = "final (subscriber Map.empty (roomIn RoomInfoState.initialized, []) wsOnlyComponent)"
  have d1: "urlJustTried (trace ?d1) = Some (Some ''wss://janus.conf.meetecho.com/ws'')"
    "janusServerUrl ?d1 = Some ''wss://janus.conf.meetecho.com/ws''"
    "httpUrl ?d1 = None" "httpUrl wsOnlyComponent = None"
    "timers ?d1 = []"
    "filter isAttach (trace ?d1) = [StoreAttachVideoRoom (Some ''wss://janus.conf.meetecho.com/ws'')]"
    by (simp_all add: wsOnlyComponent_def example_defs urlJustTried_def)
  have D: "\<exists>c'. subscriber Map.empty (roomIn RoomInfoState.attach_failed, []) ?d1 = Returned c' \<and>
      timers c' = [100] \<and>
      filter isAttach (trace (timerFires c')) =
        [StoreAttachVideoRoom (Some ''wss://janus.conf.meetecho.com/ws''),
         StoreAttachVideoRoom None]"
    using t[THEN conjunct1, rule_format,
        of "roomIn RoomInfoState.attach_failed" Map.empty ?d1
          "Some ''wss://janus.conf.meetecho.com/ws''" "[]"] st nf d1
    by (auto simp add: fe)
  show ?thesis using ret B c1(1) A d1(1,4) D by blast
qed

text \<open>
  Claim C9: on every emitted pair, whether the subscriber returns or throws, the mute
  commands it issues are exactly one command carrying the desired mute value when the
  desired value differs from \<^verbatim>\<open>roomInfo.muted\<close> and the publish state is \<^verbatim>\<open>publishing\<close>,
  and none otherwise.
\<close>

theorem mute_reconciliation:
  "filter isSetMute (trace (final (subscriber T (roomInfo, remoteFeeds) c))) =
     filter isSetMute (trace c) @
       (if isMuted c \<noteq> muted roomInfo \<and> publishState roomInfo = PublishState.publishing
        then [StoreSetMute (isMuted c)] else [])"
proof (cases "lookupFails T roomInfo")
  case True
  then have "subscriber T (roomInfo, remoteFeeds) c = Threw TypeError c"
    using subscriber_throws[of T "(roomInfo, remoteFeeds)" c] by simp
  moreover have "publishState roomInfo \<noteq> PublishState.publishing"
    using True by (simp add: lookupFails_def)
  ultimately show ?thesis by simp
next
  case False
  then have "subscriber T (roomInfo, remoteFeeds) c =
      Returned (stateSwitch roomInfo (if truthy (pin c) then pin c else None)
        (beforeSwitch T (roomInfo, remoteFeeds) c))"
    using subscriber_returns[of T "(roomInfo, remoteFeeds)" c] by simp
  then show ?thesis
    by (auto simp add: beforeSwitch_trace muteCommands_def)
qed

theorem mute_reconciliation_witness:
  "filter isSetMute (trace (final (subscriber Map.empty
      (\<lparr>state = RoomInfoState.publishing, publishState = PublishState.publishing,
        muted = False, errorCode = None\<rparr>, []) (set_isMuted True exampleComponent)))) =
     [StoreSetMute True, StoreSetMute True] \<and>
   filter isSetMute (trace (final (subscriber Map.empty
      (\<lparr>state = RoomInfoState.registered, publishState = PublishState.idle,
        muted = False, errorCode = None\<rparr>, []) (set_isMuted True exampleComponent)))) =
     [StoreSetMute True]"
proof -
  have m: "isMuted (set_isMuted True exampleComponent) = True"
    "filter isSetMute (trace (set_isMuted True exampleComponent)) = [StoreSetMute True]"
    by (simp_all add: set_isMuted_def example_defs)
  show ?thesis
    using mute_reconciliation[of Map.empty
        "\<lparr>state = RoomInfoState.publishing, publishState = PublishState.publishing,
          muted = False, errorCode = None\<rparr>" "[]" "set_isMuted True exampleComponent"]
      mute_reconciliation[of Map.empty
        "\<lparr>state = RoomInfoState.registered, publishState = PublishState.idle,
          muted = False, errorCode = None\<rparr>" "[]" "set_isMuted True exampleComponent"]
    by (simp add: m)
qed

text \<open>
  Claim C10, as stated: the emitted publisher list is the list of the ready feeds, and
  this holds after every feed-list update. When an update arrives with a publish error
  whose code the table lacks, the subscriber throws before it reaches \<^verbatim>\<open>emitRemoteFeeds\<close>:
  no list is emitted, and the last list emitted (feed 7) is not the list of the ready
  feeds of the update (feeds 7 and 8).
\<close>

theorem publishers_stale_after_throw_counterexample:
  "\<not> returned (run [426 \<mapsto> ''No such room'']
      (map StateEmission
        [(roomIn RoomInfoState.registered, [(''7'', (feedAt 1 0 0)\<lparr>feed_id := ''7''\<rparr>)]),
         (roomFailed 499, [(''7'', (feedAt 1 0 0)\<lparr>feed_id := ''7''\<rparr>),
                           (''8'', (feedAt 1 0 0)\<lparr>feed_id := ''8''\<rparr>)])])
      exampleComponent) \<and>
   filter isPublishers (trace (final (run [426 \<mapsto> ''No such room'']
      (map StateEmission
        [(roomIn RoomInfoState.registered, [(''7'', (feedAt 1 0 0)\<lparr>feed_id := ''7''\<rparr>)]),
         (roomFailed 499, [(''7'', (feedAt 1 0 0)\<lparr>feed_id := ''7''\<rparr>),
                           (''8'', (feedAt 1 0 0)\<lparr>feed_id := ''8''\<rparr>)])])
      exampleComponent))) =
     [EmitPublishers [(feedAt 1 0 0)\<lparr>feed_id := ''7''\<rparr>]] \<and>
   readyFeeds [(''7'', (feedAt 1 0 0)\<lparr>feed_id := ''7''\<rparr>),
               (''8'', (feedAt 1 0 0)\<lparr>feed_id := ''8''\<rparr>)] =
     [(feedAt 1 0 0)\<lparr>feed_id := ''7''\<rparr>, (feedAt 1 0 0)\<lparr>feed_id := ''8''\<rparr>]"
  by (simp add: example_defs readyFeeds_def feedAt_def)

text \<open>
  Claim C10, amended: the publisher list that \<^verbatim>\<open>emitRemoteFeeds\<close> emits for a list of feeds
  is the list of its feeds whose state is \<^verbatim>\<open>ready\<close>, in the same order (a subsequence of
  it); and over every run of emissions that the subscriber handles without throwing,
  the publisher lists emitted are, one per emission and in order, these lists for the
  feeds of each emission.
\<close>

theorem publishers_are_ready_feeds:
  "trace (emitRemoteFeeds remoteFeeds c) =
     trace c @ [EmitPublishers (filter (\<lambda>feed. feed_state feed = RemoteFeedState.ready) remoteFeeds)] \<and>
   subseq (filter (\<lambda>feed. feed_state feed = RemoteFeedState.ready) remoteFeeds) remoteFeeds \<and>
   (subscribed c \<and> run T (map StateEmission es) c = Returned c' \<longrightarrow>
      filter isPublishers (trace c') =
        filter isPublishers (trace c) @
          map (\<lambda>e. EmitPublishers
                 (filter (\<lambda>feed. feed_state feed = RemoteFeedState.ready) (map snd (snd e)))) es)"
  using run_publishers[of c T es c']
  by (simp add: emitRemoteFeeds_def readyFeeds_def)

theorem publishers_are_ready_feeds_witness:
  "subscribed exampleComponent \<and>
   returned (run Map.empty
      (map StateEmission
        [(roomIn RoomInfoState.registered,
          [(''7'', feedAt 1 0 0), (''9'', (feedAt 1 0 0)\<lparr>feed_state := RemoteFeedState.pending\<rparr>),
           (''a'', feedAt 0 1 1)])]) exampleComponent) \<and>
   filter isPublishers (trace (final (run Map.empty
      (map StateEmission
        [(roomIn RoomInfoState.registered,
          [(''7'', feedAt 1 0 0), (''9'', (feedAt 1 0 0)\<lparr>feed_state := RemoteFeedState.pending\<rparr>),
           (''a'', feedAt 0 1 1)])]) exampleComponent))) =
     [EmitPublishers [feedAt 1 0 0, feedAt 0 1 1]]"
proof -
  let ?es = "[(roomIn RoomInfoState.registered,
          [(''7'', feedAt 1 0 0), (''9'', (feedAt 1 0 0)\<lparr>feed_state := RemoteFeedState.pending\<rparr>),
           (''a'', feedAt 0 1 1)])]"
  let ?r = "run Map.empty (map StateEmission ?es) exampleComponent"
  have ret: "returned ?r" by (simp add: example_defs)
  then have r: "?r = Returned (final ?r)" by (rule result_final)
  have t: "trace exampleComponent = [StoreInitialize [''stun:stun2.l.google.com:19302'']]"
    by (simp add: example_defs)
  have "filter isPublishers (trace (final ?r)) = [EmitPublishers [feedAt 1 0 0, feedAt 0 1 1]]"
    using publishers_are_ready_feeds[of "[]" exampleComponent Map.empty ?es "final ?r"]
      example_subscribed r
    by (simp add: t feedAt_def)
  with ret example_subscribed show ?thesis by simp
qed

text \<open>
  Claim C5, as stated: a teardown (a reset after an input change, or the destruction of
  the component) cancels a pending retry timer, which then has no effect. Nothing in the
  source clears the timer: after an attach failure has scheduled the retry, the timer
  still runs after the component is destroyed and calls \<^verbatim>\<open>attachVideoRoom\<close> with the http
  URL, and after a reset (here a change of the pin) it calls \<^verbatim>\<open>attachVideoRoom\<close> with
  the URL the reset has chosen.
\<close>

theorem retry_timer_survives_teardown_counterexample:
  "\<not> subscribed (final (run Map.empty
      [StateEmission (roomIn RoomInfoState.attach_failed, []), Destroy] exampleComponent)) \<and>
   trace (final (run Map.empty
      [StateEmission (roomIn RoomInfoState.attach_failed, []), Destroy] exampleComponent)) =
     [StoreInitialize [''stun:stun2.l.google.com:19302''], EmitPublishers []] \<and>
   trace (final (run Map.empty
      [StateEmission (roomIn RoomInfoState.attach_failed, []), Destroy, TimerFires]
      exampleComponent)) =
     [StoreInitialize [''stun:stun2.l.google.com:19302''], EmitPublishers [],
      StoreAttachVideoRoom (Some ''https://janus.conf.meetecho.com/janus'')] \<and>
   trace (final (run Map.empty
      [StateEmission (roomIn RoomInfoState.attach_failed, []), Changes [(''pin'', False)],
       TimerFires] exampleComponent)) =
     [StoreInitialize [''stun:stun2.l.google.com:19302''], EmitPublishers [],
      StoreReset [''stun:stun2.l.google.com:19302''],
      StoreAttachVideoRoom (Some ''wss://janus.conf.meetecho.com/ws'')]"
  by (simp add: example_defs ngOnDestroy_def ngOnChanges_def resetKeys_def timerFires_def)

text \<open>
  Claim C5, amended: a teardown (the destruction of the component, or a change of inputs,
  whether or not it resets the store) leaves a pending retry timer pending, and when the
  timer runs it calls \<^verbatim>\<open>attachVideoRoom\<close> with the server URL the component has at that
  moment.
\<close>

theorem teardown_keeps_retry_timer:
  assumes "timers c = d # ds"
    and "teardown = Destroy \<or> (\<exists>changes. teardown = Changes changes)"
  shows "\<exists>c1. step T teardown c = Returned c1 \<and>
           timers c1 = d # ds \<and>
           trace (timerFires c1) = trace c1 @ [StoreAttachVideoRoom (janusServerUrl c1)]"
proof -
  from assms(2) show ?thesis
  proof
    assume t: "teardown = Destroy"
    have "timers (ngOnDestroy c) \<noteq> []" using assms(1) by (simp add: ngOnDestroy_def)
    then have "trace (timerFires (ngOnDestroy c)) =
        trace (ngOnDestroy c) @ [StoreAttachVideoRoom (janusServerUrl (ngOnDestroy c))]"
      by (rule timerFires_trace)
    then show ?thesis using t assms(1) by (simp add: ngOnDestroy_def)
  next
    assume "\<exists>changes. teardown = Changes changes"
    then obtain changes where t: "teardown = Changes changes" ..
    let ?c = "ngOnChanges (map_of changes) c"
    have tm: "timers ?c = d # ds" using assms(1) by (simp add: ngOnChanges_def)
    then have "timers ?c \<noteq> []" by simp
    then have "trace (timerFires ?c) = trace ?c @ [StoreAttachVideoRoom (janusServerUrl ?c)]"
      by (rule timerFires_trace)
    then show ?thesis using t tm by simp
  qed
qed

theorem teardown_keeps_retry_timer_witness:
  "timers (final (subscriber Map.empty (roomIn RoomInfoState.attach_failed, []) exampleComponent))
     = [100] \<and>
   (\<exists>c1. step Map.empty Destroy
            (final (subscriber Map.empty (roomIn RoomInfoState.attach_failed, []) exampleComponent))
          = Returned c1 \<and>
      timers c1 = [100] \<and>
      trace (timerFires c1) =
        trace c1 @ [StoreAttachVideoRoom (Some ''https://janus.conf.meetecho.com/janus'')])"
proof -
  let ?c = "final (subscriber Map.empty (roomIn RoomInfoState.attach_failed, []) exampleComponent)"
  have h: "timers ?c = 100 # []" by (simp add: example_defs)
  have u: "janusServerUrl ?c = Some ''https://janus.conf.meetecho.com/janus''"
    by (simp add: example_defs)
  have n: "janusServerUrl (ngOnDestroy ?c) = janusServerUrl ?c" by (simp add: ngOnDestroy_def)
  show ?thesis
    using teardown_keeps_retry_timer[OF h, of Destroy Map.empty] h u n
    by auto
qed

section \<open>Lemmas on the video box\<close>

lemma requests_append: "requests (xs @ ys) = requests xs @ requests ys"
  by (induction xs rule: requests.induct) simp_all

lemma switchSubstream_Some:
  "remoteFeed b = Some feed \<Longrightarrow>
     switchSubstream substreamId b =
       Returned (b\<lparr>emitted := emitted b @
          (if requestedSubstream feed \<noteq> substreamId
           then [ConsoleLog ''switching substream'' substreamId (videoId b),
                 EmitRequestSubstream feed substreamId]
           else [])\<rparr>)"
  by (simp add: switchSubstream_def)

text \<open>The two branches of the monitor, for a box that has a feed.\<close>

lemma monitor_unhealthy:
  assumes "remoteFeed b = Some feed" and "numVideoTracks feed = 0 \<or> slowLink"
  shows "monitorVideoQuality slowLink b =
     (if currentSubstream feed > 0
      then switchSubstream (currentSubstream feed - 1)
             (b\<lparr>videoQualityHelper := streamError (currentSubstream feed) (videoQualityHelper b)\<rparr>)
      else Returned
             (b\<lparr>videoQualityHelper := streamError (currentSubstream feed) (videoQualityHelper b)\<rparr>))"
  using assms by (auto simp add: monitorVideoQuality_def Let_def)

lemma monitor_healthy:
  assumes "remoteFeed b = Some feed" and "\<not> (numVideoTracks feed = 0 \<or> slowLink)"
  shows "monitorVideoQuality slowLink b =
     (if fst (ping (currentSubstream feed) (videoQualityHelper b)) > currentSubstream feed
      then switchSubstream (fst (ping (currentSubstream feed) (videoQualityHelper b)))
             (b\<lparr>videoQualityHelper :=
                  streamEnd (currentSubstream feed)
                    (snd (ping (currentSubstream feed) (videoQualityHelper b)))\<rparr>)
      else Returned
             (b\<lparr>videoQualityHelper := snd (ping (currentSubstream feed) (videoQualityHelper b))\<rparr>))"
  using assms by (auto simp add: monitorVideoQuality_def Let_def)

text \<open>One tick, in full: the helper after it and the effects it adds.\<close>

lemma evaluate_unhealthy:
  assumes "\<not> healthyTick tick"
  shows "evaluate tick b =
     Returned (b\<lparr>remoteFeed := Some (snd tick),
                 videoQualityHelper :=
                   streamError (currentSubstream (snd tick)) (videoQualityHelper b),
                 emitted := emitted b @
                   (if currentSubstream (snd tick) > 0 \<and>
                       requestedSubstream (snd tick) \<noteq> currentSubstream (snd tick) - 1
                    then [ConsoleLog ''switching substream'' (currentSubstream (snd tick) - 1)
                            (videoId b),
                          EmitRequestSubstream (snd tick) (currentSubstream (snd tick) - 1)]
                    else [])\<rparr>)"
proof -
  let ?b = "b\<lparr>remoteFeed := Some (snd tick)\<rparr>"
  have f: "remoteFeed ?b = Some (snd tick)" by simp
  have u: "numVideoTracks (snd tick) = 0 \<or> fst tick"
    using assms by (simp add: healthyTick_def)
  show ?thesis
    unfolding evaluate_def monitor_unhealthy[OF f u]
    by (simp add: switchSubstream_def)
qed

lemma evaluate_healthy:
  assumes "healthyTick tick"
  shows "evaluate tick b =
     Returned (b\<lparr>remoteFeed := Some (snd tick),
                 videoQualityHelper :=
                   (if fst (ping (currentSubstream (snd tick)) (videoQualityHelper b))
                         > currentSubstream (snd tick)
                    then streamEnd (currentSubstream (snd tick))
                           (snd (ping (currentSubstream (snd tick)) (videoQualityHelper b)))
                    else snd (ping (currentSubstream (snd tick)) (videoQualityHelper b))),
                 emitted := emitted b @
                   (if fst (ping (currentSubstream (snd tick)) (videoQualityHelper b))
                         > currentSubstream (snd tick) \<and>
                       requestedSubstream (snd tick) \<noteq>
                         fst (ping (currentSubstream (snd tick)) (videoQualityHelper b))
                    then [ConsoleLog ''switching substream''
                            (fst (ping (currentSubstream (snd tick)) (videoQualityHelper b)))
                            (videoId b),
                          EmitRequestSubstream (snd tick)
                            (fst (ping (currentSubstream (snd tick)) (videoQualityHelper b)))]
                    else [])\<rparr>)"
proof -
  let ?b = "b\<lparr>remoteFeed := Some (snd tick)\<rparr>"
  have f: "remoteFeed ?b = Some (snd tick)" by simp
  have u: "\<not> (numVideoTracks (snd tick) = 0 \<or> fst tick)"
    using assms by (simp add: healthyTick_def)
  show ?thesis
    unfolding evaluate_def monitor_healthy[OF f u]
    by (simp add: switchSubstream_def)
qed

lemma evaluate_returns: "\<exists>b'. evaluate tick b = Returned b'"
  by (cases "healthyTick tick") (simp_all add: evaluate_healthy evaluate_unhealthy)



text \<open>The helper's settings never change, and its counter never runs ahead of the ticks.\<close>

lemma ping_fields [simp]:
  "needed (snd (ping s h)) = needed h"
  "maxStreams (snd (ping s h)) = maxStreams h"
  "layer (snd (ping s h)) = s"
  "healthy (snd (ping s h)) = (if layer h = s then healthy h + 1 else 1)"
  by (simp_all add: ping_def Let_def)


lemma streamError_fields [simp]:
  "needed (streamError s h) = needed h"
  "maxStreams (streamError s h) = maxStreams h"
  "layer (streamError s h) = s"
  "healthy (streamError s h) = 0"
  "errors (streamError s h) = errors h + 1"
  by (simp_all add: streamError_def)

lemma streamEnd_fields [simp]:
  "needed (streamEnd s h) = needed h"
  "maxStreams (streamEnd s h) = maxStreams h"
  "layer (streamEnd s h) = layer h"
  "healthy (streamEnd s h) = (if layer h = s then 0 else healthy h)"
  by (simp_all add: streamEnd_def)





lemma evaluate_requests:
  assumes "evaluate tick b = Returned b'"
  shows "\<exists>new. emitted b' = emitted b @ new \<and>
           (\<forall>r\<in>set (requests new). fst r = snd tick \<and> requestedSubstream (fst r) \<noteq> snd r)"
proof (cases "healthyTick tick")
  case True
  show ?thesis
    using assms True by (auto simp add: evaluate_healthy)
next
  case False
  show ?thesis
    using assms False by (auto simp add: evaluate_unhealthy)
qed

lemma evaluations_requests:
  "evaluations ticks b = Returned b' \<Longrightarrow>
     \<exists>new. emitted b' = emitted b @ new \<and>
       (\<forall>r\<in>set (requests new). requestedSubstream (fst r) \<noteq> snd r)"
proof (induction ticks arbitrary: b)
  case Nil
  then show ?case by simp
next
  case (Cons tick ticks)
  obtain b1 where e: "evaluate tick b = Returned b1" using evaluate_returns by blast
  with Cons.prems have r: "evaluations ticks b1 = Returned b'" by simp
  from evaluate_requests[OF e] obtain n1 where n1: "emitted b1 = emitted b @ n1"
    "\<forall>r\<in>set (requests n1). requestedSubstream (fst r) \<noteq> snd r" by blast
  from Cons.IH[OF r] obtain n2 where n2: "emitted b' = emitted b1 @ n2"
    "\<forall>r\<in>set (requests n2). requestedSubstream (fst r) \<noteq> snd r" by blast
  have "emitted b' = emitted b @ (n1 @ n2)" using n1(1) n2(1) by simp
  moreover have "\<forall>r\<in>set (requests (n1 @ n2)). requestedSubstream (fst r) \<noteq> snd r"
    using n1(2) n2(2) by (auto simp add: requests_append)
  ultimately show ?case by blast
qed



lemmas fresh_defs = new_VideoBoxComponent_def new_VideoQualityHelper_def




section \<open>The claims on the video box\<close>

text \<open>
  Claim C8: a proposed switch is emitted as a request exactly when the proposed substream
  differs from the feed's \<^verbatim>\<open>requestedSubstream\<close>; when the two are equal nothing at all
  happens. Whatever the ticks, every request that a run of evaluations emits is for a
  substream other than the one last requested on the feed it names, so a proposal that
  comes again on a later tick is not emitted while the requested substream equals it.
\<close>

theorem switch_emitted_iff_not_requested:
  assumes "remoteFeed b = Some feed"
  shows "(\<exists>b'. switchSubstream substreamId b = Returned b' \<and>
            requests (emitted b') = requests (emitted b) @
              (if requestedSubstream feed \<noteq> substreamId then [(feed, substreamId)] else [])) \<and>
         (requestedSubstream feed = substreamId \<longrightarrow> switchSubstream substreamId b = Returned b) \<and>
         (\<forall>ticks b0 b1. evaluations ticks b0 = Returned b1 \<longrightarrow>
            (\<exists>new. emitted b1 = emitted b0 @ new \<and>
               (\<forall>r\<in>set (requests new). requestedSubstream (fst r) \<noteq> snd r)))"
  using assms evaluations_requests
  by (simp add: switchSubstream_Some requests_append)

theorem switch_emitted_iff_not_requested_witness:
  "remoteFeed ((new_VideoBoxComponent 3)\<lparr>remoteFeed := Some (feedAt 1 2 1)\<rparr>) = Some (feedAt 1 2 1) \<and>
   switchSubstream 1 ((new_VideoBoxComponent 3)\<lparr>remoteFeed := Some (feedAt 1 2 1)\<rparr>) =
     Returned ((new_VideoBoxComponent 3)\<lparr>remoteFeed := Some (feedAt 1 2 1)\<rparr>) \<and>
   (\<exists>b'. switchSubstream 1 ((new_VideoBoxComponent 3)\<lparr>remoteFeed := Some (feedAt 1 2 2)\<rparr>)
            = Returned b' \<and>
      requests (emitted b') = [(feedAt 1 2 2, 1)])"
proof -
  let ?b = "(new_VideoBoxComponent 3)\<lparr>remoteFeed := Some (feedAt 1 2 1)\<rparr>"
  let ?c = "(new_VideoBoxComponent 3)\<lparr>remoteFeed := Some (feedAt 1 2 2)\<rparr>"
  have h: "remoteFeed ?b = Some (feedAt 1 2 1)" by simp
  have k: "remoteFeed ?c = Some (feedAt 1 2 2)" by simp
  have e: "emitted (new_VideoBoxComponent 3) = []" by (simp add: new_VideoBoxComponent_def)
  have f: "requestedSubstream (feedAt 1 2 1) = 1" "requestedSubstream (feedAt 1 2 2) = 2"
    by (simp_all add: feedAt_def)
  show ?thesis
    using switch_emitted_iff_not_requested[OF h, of 1]
      switch_emitted_iff_not_requested[OF k, of 1]
    by (auto simp add: e f)
qed

text \<open>
  Claim C6, as stated: on every evaluation tick on a feed that has no video track or
  whose slow-link signal is asserted, a stream error is recorded and a downgrade is
  proposed. Neither tick of the source reads the signal: the change of the feed input
  passes the constant false (the detection is commented out) and so does the interval.
  On a feed at substream 2 with a video track and the slow-link signal asserted, both
  ticks record no error and emit nothing.
\<close>

theorem slow_link_ignored_counterexample:
  "feed_slowLink ((feedAt 1 2 2)\<lparr>feed_slowLink := True\<rparr>) \<and>
   returned (remoteFeedChanged ((feedAt 1 2 2)\<lparr>feed_slowLink := True\<rparr>)
      ((new_VideoBoxComponent 3)\<lparr>remoteFeed := Some (feedAt 1 2 2)\<rparr>)) \<and>
   errors (videoQualityHelper (final (remoteFeedChanged ((feedAt 1 2 2)\<lparr>feed_slowLink := True\<rparr>)
      ((new_VideoBoxComponent 3)\<lparr>remoteFeed := Some (feedAt 1 2 2)\<rparr>)))) = 0 \<and>
   emitted (final (remoteFeedChanged ((feedAt 1 2 2)\<lparr>feed_slowLink := True\<rparr>)
      ((new_VideoBoxComponent 3)\<lparr>remoteFeed := Some (feedAt 1 2 2)\<rparr>))) = [] \<and>
   returned (intervalTick
      ((new_VideoBoxComponent 3)\<lparr>remoteFeed := Some ((feedAt 1 2 2)\<lparr>feed_slowLink := True\<rparr>)\<rparr>)) \<and>
   errors (videoQualityHelper (final (intervalTick
      ((new_VideoBoxComponent 3)\<lparr>remoteFeed := Some ((feedAt 1 2 2)\<lparr>feed_slowLink := True\<rparr>)\<rparr>))))
     = 0 \<and>
   emitted (final (intervalTick
      ((new_VideoBoxComponent 3)\<lparr>remoteFeed := Some ((feedAt 1 2 2)\<lparr>feed_slowLink := True\<rparr>)\<rparr>)))
     = []"
  by (simp add: remoteFeedChanged_def intervalTick_def monitorVideoQuality_def fresh_defs
        feedAt_def ping_def Let_def)

text \<open>
  Claim C6, amended: on every evaluation tick (the change of the feed input, or the
  interval) on a feed with no video track, whatever the state of the scorer, the tick
  returns; a stream error is recorded at the current substream; if the current substream
  is above 0, the switch to the substream below is proposed in this same tick (the
  request is emitted unless that substream is the one last requested); otherwise nothing
  is emitted. \<^verbatim>\<open>monitorVideoQuality\<close> does the same when it is called with its argument
  \<^verbatim>\<open>slowLink\<close> true, which no tick does.
\<close>

theorem downgrade_is_immediate:
  "(remoteFeed b = Some feed \<and> (numVideoTracks feed = 0 \<or> slowLink) \<longrightarrow>
      (\<exists>b'. monitorVideoQuality slowLink b = Returned b' \<and>
         videoQualityHelper b' = streamError (currentSubstream feed) (videoQualityHelper b) \<and>
         (if currentSubstream feed > 0
          then switchSubstream (currentSubstream feed - 1)
                 (b\<lparr>videoQualityHelper :=
                      streamError (currentSubstream feed) (videoQualityHelper b)\<rparr>)
                 = Returned b' \<and>
               requests (emitted b') = requests (emitted b) @
                 (if requestedSubstream feed \<noteq> currentSubstream feed - 1
                  then [(feed, currentSubstream feed - 1)] else [])
          else emitted b' = emitted b))) \<and>
   (numVideoTracks feed = 0 \<longrightarrow>
      (\<exists>b'. remoteFeedChanged feed b = Returned b' \<and>
         videoQualityHelper b' = streamError (currentSubstream feed) (videoQualityHelper b) \<and>
         requests (emitted b') = requests (emitted b) @
           (if currentSubstream feed > 0 \<and> requestedSubstream feed \<noteq> currentSubstream feed - 1
            then [(feed, currentSubstream feed - 1)] else []))) \<and>
   (remoteFeed b = Some feed \<and> numVideoTracks feed = 0 \<longrightarrow>
      (\<exists>b'. intervalTick b = Returned b' \<and>
         videoQualityHelper b' = streamError (currentSubstream feed) (videoQualityHelper b) \<and>
         requests (emitted b') = requests (emitted b) @
           (if currentSubstream feed > 0 \<and> requestedSubstream feed \<noteq> currentSubstream feed - 1
            then [(feed, currentSubstream feed - 1)] else [])))"
  by (simp add: remoteFeedChanged_def intervalTick_def monitor_unhealthy switchSubstream_Some
        requests_append)

theorem downgrade_is_immediate_witness:
  "numVideoTracks (feedAt 0 2 2) = 0 \<and>
   (\<exists>b'. remoteFeedChanged (feedAt 0 2 2) (new_VideoBoxComponent 3) = Returned b' \<and>
      errors (videoQualityHelper b') = 1 \<and>
      requests (emitted b') = [(feedAt 0 2 2, 1)]) \<and>
   (\<exists>b'. intervalTick ((new_VideoBoxComponent 3)\<lparr>remoteFeed := Some (feedAt 0 2 2)\<rparr>)
            = Returned b' \<and>
      errors (videoQualityHelper b') = 1 \<and>
      requests (emitted b') = [(feedAt 0 2 2, 1)]) \<and>
   (\<exists>b'. monitorVideoQuality True ((new_VideoBoxComponent 3)\<lparr>remoteFeed := Some (feedAt 1 2 2)\<rparr>)
            = Returned b' \<and>
      errors (videoQualityHelper b') = 1 \<and>
      requests (emitted b') = [(feedAt 1 2 2, 1)])"
proof -
  let ?b = "(new_VideoBoxComponent 3)\<lparr>remoteFeed := Some (feedAt 0 2 2)\<rparr>"
  let ?c = "(new_VideoBoxComponent 3)\<lparr>remoteFeed := Some (feedAt 1 2 2)\<rparr>"
  have h: "remoteFeed ?b = Some (feedAt 0 2 2)" and k: "remoteFeed ?c = Some (feedAt 1 2 2)"
    by simp_all
  have e: "emitted (new_VideoBoxComponent 3) = []"
    "errors (videoQualityHelper (new_VideoBoxComponent 3)) = 0"
    by (simp_all add: new_VideoBoxComponent_def new_VideoQualityHelper_def)
  have f: "currentSubstream (feedAt 0 2 2) = 2" "requestedSubstream (feedAt 0 2 2) = 2"
    "numVideoTracks (feedAt 0 2 2) = 0"
    "currentSubstream (feedAt 1 2 2) = 2" "requestedSubstream (feedAt 1 2 2) = 2"
    by (simp_all add: feedAt_def)
  note t = downgrade_is_immediate
  have A: "\<exists>b'. remoteFeedChanged (feedAt 0 2 2) (new_VideoBoxComponent 3) = Returned b' \<and>
      errors (videoQualityHelper b') = 1 \<and> requests (emitted b') = [(feedAt 0 2 2, 1)]"
    using t[of "new_VideoBoxComponent 3" "feedAt 0 2 2", THEN conjunct2, THEN conjunct1]
    by (auto simp add: e f)
  have B: "\<exists>b'. intervalTick ?b = Returned b' \<and>
      errors (videoQualityHelper b') = 1 \<and> requests (emitted b') = [(feedAt 0 2 2, 1)]"
    using t[of ?b "feedAt 0 2 2", THEN conjunct2, THEN conjunct2] h
    by (auto simp add: e f)
  have C: "\<exists>b'. monitorVideoQuality True ?c = Returned b' \<and>
      errors (videoQualityHelper b') = 1 \<and> requests (emitted b') = [(feedAt 1 2 2, 1)]"
    using t[of ?c "feedAt 1 2 2" True, THEN conjunct1] k
    by (auto simp add: e f)
  show ?thesis using f(3) A B C by blast
qed



end
